theory Spec2Isabelle
  imports Main "HOL-Library.Word"
begin

unbundle bit_operations_syntax

section \<open>The page cache of kernel/io/pagecach.c\<close>

text \<open>
  The model is sequential: every routine runs to completion on an explicit state, so the
  queued list lock and the per-file shared/exclusive locks have no counterpart, and an
  atomic read-modify-write is a plain update that hands back the old value. Pointers to
  page cache entries and to file objects are references into two stores; a pointer that
  may be NULL is an option. ASSERT is a debug-build check and is not part of the model.
  UINTN and ULONGLONG are 64-bit words, ULONG is a 32-bit word.
\<close>

subsection \<open>Data\<close>

type_synonym entry_ref = nat
type_synonym file_ref = nat
type_synonym UINTN = "64 word"
type_synonym ULONGLONG = "64 word"
type_synonym ULONG = "32 word"

datatype KSTATUS =
    STATUS_SUCCESS
  | STATUS_INSUFFICIENT_RESOURCES
  | STATUS_TRY_AGAIN
  | STATUS_DATA_LENGTH_MISMATCH
  | STATUS_RESOURCE_IN_USE
  | STATUS_OTHER nat

definition KSUCCESS :: "KSTATUS \<Rightarrow> bool" where
  "KSUCCESS Status = (Status = STATUS_SUCCESS)"

datatype IO_OBJECT_TYPE =
    IoObjectRegularFile
  | IoObjectSymbolicLink
  | IoObjectSharedMemoryObject
  | IoObjectBlockDevice
  | IoObjectOtherType

text \<open>
  Modelled from the spec: the macros IO_IS_CACHEABLE_FILE and IO_IS_FILE_OBJECT_CACHEABLE
  are declared outside pagecach.c. The file kinds are regular file, symbolic link and
  shared memory object; the cacheable types are those and the block device.
\<close>

definition IO_IS_CACHEABLE_FILE :: "IO_OBJECT_TYPE \<Rightarrow> bool" where
  "IO_IS_CACHEABLE_FILE t =
     (t = IoObjectRegularFile \<or> t = IoObjectSymbolicLink \<or> t = IoObjectSharedMemoryObject)"

definition IO_IS_CACHEABLE_TYPE :: "IO_OBJECT_TYPE \<Rightarrow> bool" where
  "IO_IS_CACHEABLE_TYPE t = (t = IoObjectBlockDevice \<or> IO_IS_CACHEABLE_FILE t)"

definition PAGE_CACHE_ENTRY_FLAG_DIRTY :: ULONG where
  "PAGE_CACHE_ENTRY_FLAG_DIRTY = 0x00000001"

definition PAGE_CACHE_ENTRY_FLAG_PAGE_OWNER :: ULONG where
  "PAGE_CACHE_ENTRY_FLAG_PAGE_OWNER = 0x00000002"

definition PAGE_CACHE_ENTRY_FLAG_MAPPED :: ULONG where
  "PAGE_CACHE_ENTRY_FLAG_MAPPED = 0x00000004"

definition PAGE_CACHE_FLUSH_MAX :: UINTN where
  "PAGE_CACHE_FLUSH_MAX = 131072"

definition PAGE_CACHE_FLUSH_MAX_CLEAN_STREAK :: UINTN where
  "PAGE_CACHE_FLUSH_MAX_CLEAN_STREAK = 4"

definition INVALID_PHYSICAL_ADDRESS :: "64 word" where
  "INVALID_PHYSICAL_ADDRESS = 0"

text \<open>
  A page cache entry. \<open>NodeParent\<close> is \<open>Node.Parent != NULL\<close> (the entry is in its
  file's tree) and \<open>ListEntryNext\<close> is \<open>ListEntry.Next != NULL\<close>. A virtual address
  is a word, NULL being 0.
\<close>

record PAGE_CACHE_ENTRY =
  NodeParent :: bool
  ListEntryNext :: bool
  FileObject :: file_ref
  Offset :: ULONGLONG
  PhysicalAddress :: "64 word"
  VirtualAddress :: "64 word"
  BackingEntry :: "entry_ref option"
  ReferenceCount :: ULONG
  Flags :: ULONG

text \<open>
  The part of a file object the page cache reads and writes. \<open>DirtyData\<close> is the bit
  FILE_OBJECT_FLAG_DIRTY_DATA of the file object's flags, \<open>PageCacheTree\<close> lists the
  entries of the red-black tree in ascending offset order, \<open>ImageSectionList\<close> tells
  whether the image section list pointer is non-NULL.
\<close>

record FILE_OBJECT =
  DirtyData :: bool
  Type :: IO_OBJECT_TYPE
  FileSize :: ULONGLONG
  PageCacheTree :: "entry_ref list"
  ImageSectionList :: bool

text \<open>
  The heads of the intrusive lists an entry's \<open>ListEntry\<close> can be linked into: the three
  global lists, the dirty list of a file object, and the list heads that live on the
  stack of the flush, removal and trim routines.
\<close>

datatype LIST_HEAD =
    IoPageCacheCleanList
  | IoPageCacheCleanUnmappedList
  | IoPageCacheRemovalList
  | DirtyPageList file_ref
  | FlushLocalList
  | RemoveLocalList
  | DestroyListHead
  | ReturnList

text \<open>
  The global state: the two stores, the lists, the counters and thresholds of
  pagecach.c, and the answers of the collaborators the page cache calls: the free
  physical pages MM reports, the result of unmapping an entry from the image sections,
  the results of the non-cached writes yet to come (the first element answers the next
  write; an empty script answers success with every byte written), the status of the
  block device synchronisation, and the logs of what the page cache asked of them: the
  writes issued so far as (file, offset, size), the targets of MmRequestPagingOut, the
  physical pages given to MmFreePhysicalPage and the addresses and sizes given to
  MmUnmapAddress. Then come the machine's page shift, the virtual thresholds of
  pagecach.c, the free virtual memory in bytes and whether MM reports a virtual memory
  warning, and for each file object whether an attempt to take its lock exclusively
  succeeds at once.
\<close>

record page_cache =
  Entries :: "entry_ref \<Rightarrow> PAGE_CACHE_ENTRY"
  Files :: "file_ref \<Rightarrow> FILE_OBJECT"
  Lists :: "LIST_HEAD \<Rightarrow> entry_ref list"
  IoPageCacheEntryCount :: UINTN
  IoPageCacheHeadroomPagesRetreat :: UINTN
  IoPageCacheHeadroomPagesTrigger :: UINTN
  IoPageCacheMinimumPagesTarget :: UINTN
  IoPageCacheMinimumPages :: UINTN
  IoPageCacheLowMemoryCleanPageMinimum :: UINTN
  IoPageCachePhysicalPageCount :: UINTN
  IoPageCacheDirtyPageCount :: UINTN
  IoPageCacheMappedPageCount :: UINTN
  IoPageCacheMappedDirtyPageCount :: UINTN
  IoPageCacheDisableVirtualAddresses :: bool
  MmFreePhysicalPages :: UINTN
  MmUnmapImageSectionList :: "entry_ref \<Rightarrow> KSTATUS \<times> bool"
  WriteScript :: "(KSTATUS \<times> UINTN) list"
  SynchronizeStatus :: KSTATUS
  WriteLog :: "(file_ref \<times> ULONGLONG \<times> UINTN) list"
  PagingOutRequests :: "UINTN list"
  MmFreedPages :: "64 word list"
  MmUnmappedAddresses :: "(64 word \<times> UINTN) list"
  MmPageShift :: nat
  IoPageCacheHeadroomVirtualPagesRetreat :: UINTN
  IoPageCacheHeadroomVirtualPagesTrigger :: UINTN
  MmFreeVirtualMemory :: UINTN
  MmVirtualWarning :: bool
  LockAvailable :: "file_ref \<Rightarrow> bool"

subsection \<open>Entry and list primitives\<close>

definition entry_update ::
  "entry_ref \<Rightarrow> (PAGE_CACHE_ENTRY \<Rightarrow> PAGE_CACHE_ENTRY) \<Rightarrow> page_cache \<Rightarrow> page_cache" where
  "entry_update e f s = s\<lparr>Entries := (Entries s)(e := f (Entries s e))\<rparr>"

definition file_update ::
  "file_ref \<Rightarrow> (FILE_OBJECT \<Rightarrow> FILE_OBJECT) \<Rightarrow> page_cache \<Rightarrow> page_cache" where
  "file_update f g s = s\<lparr>Files := (Files s)(f := g (Files s f))\<rparr>"

definition flag_set :: "ULONG \<Rightarrow> ULONG \<Rightarrow> bool" where
  "flag_set flags bits = (flags AND bits \<noteq> 0)"

text \<open>MmPageSize is one shifted left by MmPageShift.\<close>

definition MmPageSize :: "page_cache \<Rightarrow> UINTN" where
  "MmPageSize s = push_bit (MmPageShift s) 1"

text \<open>LIST_REMOVE unlinks the entry from whichever list holds it.\<close>

definition LIST_REMOVE :: "entry_ref \<Rightarrow> page_cache \<Rightarrow> page_cache" where
  "LIST_REMOVE e s = s\<lparr>Lists := (\<lambda>h. removeAll e (Lists s h))\<rparr>"

text \<open>INSERT_BEFORE the list head: the entry becomes the tail of that list.\<close>

definition INSERT_BEFORE :: "entry_ref \<Rightarrow> LIST_HEAD \<Rightarrow> page_cache \<Rightarrow> page_cache" where
  "INSERT_BEFORE e h s =
     entry_update e (\<lambda>x. x\<lparr>ListEntryNext := True\<rparr>)
       (s\<lparr>Lists := (Lists s)(h := Lists s h @ [e])\<rparr>)"

text \<open>
  Modelled from the spec: IopMarkFileObjectDirty belongs to the file object layer; it
  signals the file object as dirty, which is the flag FILE_OBJECT_FLAG_DIRTY_DATA.
\<close>

definition IopMarkFileObjectDirty :: "file_ref \<Rightarrow> page_cache \<Rightarrow> page_cache" where
  "IopMarkFileObjectDirty f s = file_update f (\<lambda>x. x\<lparr>DirtyData := True\<rparr>) s"

definition IoPageCacheEntryAddReference :: "entry_ref \<Rightarrow> page_cache \<Rightarrow> page_cache" where
  "IoPageCacheEntryAddReference e s =
     entry_update e (\<lambda>x. x\<lparr>ReferenceCount := ReferenceCount x + 1\<rparr>) s"

definition IoPageCacheEntryReleaseReference :: "entry_ref \<Rightarrow> page_cache \<Rightarrow> page_cache" where
  "IoPageCacheEntryReleaseReference e s =
     (let OldReferenceCount = ReferenceCount (Entries s e);
          s1 = entry_update e (\<lambda>x. x\<lparr>ReferenceCount := ReferenceCount x - 1\<rparr>) s
      in if OldReferenceCount = 1 \<and> \<not> ListEntryNext (Entries s1 e)
            \<and> \<not> flag_set (Flags (Entries s1 e)) PAGE_CACHE_ENTRY_FLAG_DIRTY
         then INSERT_BEFORE e IoPageCacheCleanList s1
         else s1)"

subsection \<open>Virtual addresses\<close>

definition IoSetPageCacheEntryVirtualAddress ::
  "entry_ref \<Rightarrow> 64 word \<Rightarrow> page_cache \<Rightarrow> bool \<times> page_cache" where
  "IoSetPageCacheEntryVirtualAddress PageCacheEntry Address s =
     (if VirtualAddress (Entries s PageCacheEntry) \<noteq> 0 \<or> IoPageCacheDisableVirtualAddresses s
      then (False, s)
      else
        let UnmappedEntry =
              (case BackingEntry (Entries s PageCacheEntry) of
                 Some b \<Rightarrow> b | None \<Rightarrow> PageCacheEntry);
            OldFlags = Flags (Entries s UnmappedEntry);
            s1 = entry_update UnmappedEntry
                   (\<lambda>x. x\<lparr>Flags := Flags x OR PAGE_CACHE_ENTRY_FLAG_MAPPED\<rparr>) s;
            Set = \<not> flag_set OldFlags PAGE_CACHE_ENTRY_FLAG_MAPPED;
            s2 = (if Set then
                    let s2a = entry_update UnmappedEntry
                                (\<lambda>x. x\<lparr>VirtualAddress := Address\<rparr>) s1;
                        s2b = s2a\<lparr>IoPageCacheMappedPageCount :=
                                    IoPageCacheMappedPageCount s2a + 1\<rparr>
                    in if flag_set OldFlags PAGE_CACHE_ENTRY_FLAG_DIRTY
                       then s2b\<lparr>IoPageCacheMappedDirtyPageCount :=
                                   IoPageCacheMappedDirtyPageCount s2b + 1\<rparr>
                       else s2b
                  else s1);
            s3 = (if UnmappedEntry \<noteq> PageCacheEntry
                     \<and> VirtualAddress (Entries s2 UnmappedEntry) \<noteq> 0
                  then entry_update PageCacheEntry
                         (\<lambda>x. x\<lparr>VirtualAddress := VirtualAddress (Entries s2 UnmappedEntry)\<rparr>) s2
                  else s2)
        in (Set, s3))"

subsection \<open>Dirty tracking\<close>

definition IopMarkPageCacheEntryClean ::
  "entry_ref \<Rightarrow> bool \<Rightarrow> page_cache \<Rightarrow> bool \<times> page_cache" where
  "IopMarkPageCacheEntryClean PageCacheEntry MoveToCleanList s =
     (if \<not> flag_set (Flags (Entries s PageCacheEntry)) PAGE_CACHE_ENTRY_FLAG_DIRTY
      then (False, s)
      else
        let OldFlags = Flags (Entries s PageCacheEntry);
            s1 = entry_update PageCacheEntry
                   (\<lambda>x. x\<lparr>Flags := Flags x AND NOT PAGE_CACHE_ENTRY_FLAG_DIRTY\<rparr>) s
        in if flag_set OldFlags PAGE_CACHE_ENTRY_FLAG_DIRTY then
             let s2 = s1\<lparr>IoPageCacheDirtyPageCount := IoPageCacheDirtyPageCount s1 - 1\<rparr>;
                 s3 = (if flag_set OldFlags PAGE_CACHE_ENTRY_FLAG_MAPPED
                       then s2\<lparr>IoPageCacheMappedDirtyPageCount :=
                                  IoPageCacheMappedDirtyPageCount s2 - 1\<rparr>
                       else s2);
                 s4 = LIST_REMOVE PageCacheEntry s3;
                 s5 = entry_update PageCacheEntry (\<lambda>x. x\<lparr>ListEntryNext := False\<rparr>) s4;
                 s6 = (if MoveToCleanList
                       then INSERT_BEFORE PageCacheEntry IoPageCacheCleanList s5
                       else s5)
             in (True, s6)
           else (False, s1))"

text \<open>
  The result is None where the routine dereferences a NULL pointer: an entry that is not
  a page owner and has no backing entry.
\<close>

definition IopMarkPageCacheEntryDirty ::
  "entry_ref \<Rightarrow> page_cache \<Rightarrow> (bool \<times> page_cache) option" where
  "IopMarkPageCacheEntryDirty PageCacheEntry s =
     (case (if \<not> flag_set (Flags (Entries s PageCacheEntry)) PAGE_CACHE_ENTRY_FLAG_PAGE_OWNER
            then BackingEntry (Entries s PageCacheEntry)
            else Some PageCacheEntry) of
        None \<Rightarrow> None
      | Some DirtyEntry \<Rightarrow>
          if flag_set (Flags (Entries s DirtyEntry)) PAGE_CACHE_ENTRY_FLAG_DIRTY
          then Some (False, s)
          else
            let FileObj = FileObject (Entries s DirtyEntry);
                OldFlags = Flags (Entries s DirtyEntry);
                s1 = entry_update DirtyEntry
                       (\<lambda>x. x\<lparr>Flags := Flags x OR PAGE_CACHE_ENTRY_FLAG_DIRTY\<rparr>) s
            in if \<not> flag_set OldFlags PAGE_CACHE_ENTRY_FLAG_DIRTY then
                 let s2 = s1\<lparr>IoPageCacheDirtyPageCount := IoPageCacheDirtyPageCount s1 + 1\<rparr>;
                     s3 = (if flag_set OldFlags PAGE_CACHE_ENTRY_FLAG_MAPPED
                           then s2\<lparr>IoPageCacheMappedDirtyPageCount :=
                                      IoPageCacheMappedDirtyPageCount s2 + 1\<rparr>
                           else s2);
                     s4 = (if ListEntryNext (Entries s3 DirtyEntry)
                           then LIST_REMOVE DirtyEntry s3 else s3);
                     s5 = INSERT_BEFORE DirtyEntry (DirtyPageList FileObj) s4;
                     s6 = IopMarkFileObjectDirty (FileObject (Entries s5 DirtyEntry)) s5
                 in Some (True, s6)
               else Some (False, s1))"

definition IoMarkPageCacheEntryDirty ::
  "entry_ref \<Rightarrow> page_cache \<Rightarrow> (bool \<times> page_cache) option" where
  "IoMarkPageCacheEntryDirty PageCacheEntry s =
     (case (if \<not> flag_set (Flags (Entries s PageCacheEntry)) PAGE_CACHE_ENTRY_FLAG_PAGE_OWNER
            then BackingEntry (Entries s PageCacheEntry)
            else Some PageCacheEntry) of
        None \<Rightarrow> None
      | Some DirtyEntry \<Rightarrow>
          if flag_set (Flags (Entries s DirtyEntry)) PAGE_CACHE_ENTRY_FLAG_DIRTY
          then Some (False, s)
          else
            (case (if BackingEntry (Entries s DirtyEntry) \<noteq> None
                   then BackingEntry (Entries s PageCacheEntry)
                   else Some DirtyEntry) of
               None \<Rightarrow> None
             | Some DirtyEntry' \<Rightarrow> IopMarkPageCacheEntryDirty DirtyEntry' s))"

subsection \<open>Initialisation and the physical pressure predicate\<close>

definition MAX_UINTN :: UINTN where
  "MAX_UINTN = - 1"

definition PAGE_CACHE_MEMORY_HEADROOM_PERCENT_TRIGGER :: UINTN where
  "PAGE_CACHE_MEMORY_HEADROOM_PERCENT_TRIGGER = 10"

definition PAGE_CACHE_MEMORY_HEADROOM_PERCENT_RETREAT :: UINTN where
  "PAGE_CACHE_MEMORY_HEADROOM_PERCENT_RETREAT = 15"

definition PAGE_CACHE_MINIMUM_MEMORY_TARGET_PERCENT :: UINTN where
  "PAGE_CACHE_MINIMUM_MEMORY_TARGET_PERCENT = 33"

definition PAGE_CACHE_MINIMUM_MEMORY_PERCENT :: UINTN where
  "PAGE_CACHE_MINIMUM_MEMORY_PERCENT = 7"

definition PAGE_CACHE_LOW_MEMORY_CLEAN_PAGE_MAXIMUM :: UINTN where
  "PAGE_CACHE_LOW_MEMORY_CLEAN_PAGE_MAXIMUM = 256"

definition PAGE_CACHE_LOW_MEMORY_CLEAN_PAGE_MINIMUM_PERCENTAGE :: UINTN where
  "PAGE_CACHE_LOW_MEMORY_CLEAN_PAGE_MINIMUM_PERCENTAGE = 10"

text \<open>
  One threshold of IopInitializePageCache: the percentage of the total physical pages in
  UINTN arithmetic, followed by the source's clip to MAX_UINTN.
\<close>

definition percent_of_pages :: "UINTN \<Rightarrow> UINTN \<Rightarrow> UINTN" where
  "percent_of_pages TotalPhysicalPages Percent =
     (let PhysicalPages = (TotalPhysicalPages * Percent) div 100
      in if PhysicalPages > MAX_UINTN then MAX_UINTN else PhysicalPages)"

text \<open>
  IopInitializePageCache, as far as the lists and the physical thresholds go. The
  arguments are what the routine gets from outside: whether the list lock, the timer and
  the block allocator could be created, MmGetTotalPhysicalPages, and the status of
  creating the worker thread.
\<close>

definition IopInitializePageCache ::
  "bool \<Rightarrow> UINTN \<Rightarrow> KSTATUS \<Rightarrow> page_cache \<Rightarrow> KSTATUS \<times> page_cache" where
  "IopInitializePageCache Created TotalPhysicalPages ThreadStatus s =
     (let s0 = s\<lparr>Lists := (Lists s)(IoPageCacheCleanList := [],
                     IoPageCacheCleanUnmappedList := [], IoPageCacheRemovalList := [])\<rparr>
      in if \<not> Created then (STATUS_INSUFFICIENT_RESOURCES, s0)
         else
           let s1 = s0\<lparr>IoPageCacheHeadroomPagesRetreat :=
                     percent_of_pages TotalPhysicalPages
                       PAGE_CACHE_MEMORY_HEADROOM_PERCENT_RETREAT\<rparr>;
               s2 = s1\<lparr>IoPageCacheHeadroomPagesTrigger :=
                     percent_of_pages TotalPhysicalPages
                       PAGE_CACHE_MEMORY_HEADROOM_PERCENT_TRIGGER\<rparr>;
               s3 = s2\<lparr>IoPageCacheMinimumPagesTarget :=
                     percent_of_pages TotalPhysicalPages
                       PAGE_CACHE_MINIMUM_MEMORY_TARGET_PERCENT\<rparr>;
               s4 = s3\<lparr>IoPageCacheMinimumPages :=
                     percent_of_pages TotalPhysicalPages PAGE_CACHE_MINIMUM_MEMORY_PERCENT\<rparr>;
               s5 = s4\<lparr>IoPageCacheLowMemoryCleanPageMinimum :=
                     percent_of_pages TotalPhysicalPages
                       PAGE_CACHE_LOW_MEMORY_CLEAN_PAGE_MINIMUM_PERCENTAGE\<rparr>;
               s6 = (if IoPageCacheLowMemoryCleanPageMinimum s5 >
                        PAGE_CACHE_LOW_MEMORY_CLEAN_PAGE_MAXIMUM
                     then s5\<lparr>IoPageCacheLowMemoryCleanPageMinimum :=
                               PAGE_CACHE_LOW_MEMORY_CLEAN_PAGE_MAXIMUM\<rparr>
                     else s5)
           in (ThreadStatus, s6))"

text \<open>
  IopIsPageCacheTooBig. The second component is what the routine stores through
  FreePhysicalPages when the caller supplies the pointer.
\<close>

definition IopIsPageCacheTooBig :: "page_cache \<Rightarrow> bool \<times> UINTN option" where
  "IopIsPageCacheTooBig s =
     (if IoPageCachePhysicalPageCount s \<le> IoPageCacheMinimumPages s then (False, None)
      else
        let FreePages = MmFreePhysicalPages s
        in if FreePages > IoPageCacheHeadroomPagesTrigger s then (False, None)
           else (True, Some FreePages))"

subsection \<open>Linking\<close>

definition IopUnmapPageCacheEntrySections :: "entry_ref \<Rightarrow> page_cache \<Rightarrow> KSTATUS \<times> bool" where
  "IopUnmapPageCacheEntrySections PageCacheEntry s =
     (if ImageSectionList (Files s (FileObject (Entries s PageCacheEntry)))
      then MmUnmapImageSectionList s PageCacheEntry
      else (STATUS_SUCCESS, False))"

text \<open>MmFreePhysicalPage with the decrement of the physical page count that follows it.\<close>

definition free_physical_page :: "64 word \<Rightarrow> page_cache \<Rightarrow> page_cache" where
  "free_physical_page pa s =
     s\<lparr>MmFreedPages := MmFreedPages s @ [pa],
       IoPageCachePhysicalPageCount := IoPageCachePhysicalPageCount s - 1\<rparr>"

definition IopLinkPageCacheEntries ::
  "entry_ref \<Rightarrow> entry_ref \<Rightarrow> page_cache \<Rightarrow> bool \<times> page_cache" where
  "IopLinkPageCacheEntries LowerEntry UpperEntry s =
     (let LowerType = Type (Files s (FileObject (Entries s LowerEntry)));
          UpperType = Type (Files s (FileObject (Entries s UpperEntry)))
      in if LowerType = UpperType then (False, s)
         else if \<not> (LowerType = IoObjectBlockDevice \<and> IO_IS_CACHEABLE_FILE UpperType)
         then (False, s)
         else if BackingEntry (Entries s UpperEntry) = Some LowerEntry then (True, s)
         else if ReferenceCount (Entries s LowerEntry) \<noteq> 1 then (False, s)
         else if \<not> KSUCCESS (fst (IopUnmapPageCacheEntrySections LowerEntry s)) then (False, s)
         else
           let Delta = Flags (Entries s LowerEntry) XOR Flags (Entries s UpperEntry);
               s1 = (if flag_set (Delta AND Flags (Entries s LowerEntry))
                          PAGE_CACHE_ENTRY_FLAG_MAPPED
                     then
                       let OldFlags = Flags (Entries s LowerEntry);
                           a = entry_update LowerEntry
                                 (\<lambda>x. x\<lparr>Flags := Flags x AND NOT PAGE_CACHE_ENTRY_FLAG_MAPPED\<rparr>) s
                       in if flag_set OldFlags PAGE_CACHE_ENTRY_FLAG_MAPPED then
                            let b = a\<lparr>IoPageCacheMappedPageCount :=
                                        IoPageCacheMappedPageCount a - 1\<rparr>
                            in if flag_set OldFlags PAGE_CACHE_ENTRY_FLAG_DIRTY
                               then b\<lparr>IoPageCacheMappedDirtyPageCount :=
                                         IoPageCacheMappedDirtyPageCount b - 1\<rparr>
                               else b
                          else a
                     else s);
               PhysicalAddr = PhysicalAddress (Entries s1 LowerEntry);
               VirtualAddr = VirtualAddress (Entries s1 LowerEntry);
               s2 = entry_update LowerEntry
                      (\<lambda>x. x\<lparr>PhysicalAddress := PhysicalAddress (Entries s1 UpperEntry)\<rparr>) s1;
               s3 = entry_update LowerEntry
                      (\<lambda>x. x\<lparr>VirtualAddress := VirtualAddress (Entries s2 UpperEntry)\<rparr>) s2;
               ClearFlags = PAGE_CACHE_ENTRY_FLAG_MAPPED OR PAGE_CACHE_ENTRY_FLAG_PAGE_OWNER;
               OldUpperFlags = Flags (Entries s3 UpperEntry);
               s4 = entry_update UpperEntry (\<lambda>x. x\<lparr>Flags := Flags x AND NOT ClearFlags\<rparr>) s3;
               s5 = (if flag_set OldUpperFlags PAGE_CACHE_ENTRY_FLAG_MAPPED then
                       let a = s4\<lparr>IoPageCacheMappedPageCount :=
                                   IoPageCacheMappedPageCount s4 - 1\<rparr>
                       in if flag_set Delta PAGE_CACHE_ENTRY_FLAG_MAPPED then
                            let OldFlags = Flags (Entries a LowerEntry);
                                b = entry_update LowerEntry
                                      (\<lambda>x. x\<lparr>Flags := Flags x OR PAGE_CACHE_ENTRY_FLAG_MAPPED\<rparr>) a
                            in if \<not> flag_set OldFlags PAGE_CACHE_ENTRY_FLAG_MAPPED then
                                 let c = b\<lparr>IoPageCacheMappedPageCount :=
                                             IoPageCacheMappedPageCount b + 1\<rparr>
                                 in if flag_set OldFlags PAGE_CACHE_ENTRY_FLAG_DIRTY
                                    then c\<lparr>IoPageCacheMappedDirtyPageCount :=
                                              IoPageCacheMappedDirtyPageCount c + 1\<rparr>
                                    else c
                               else b
                          else a
                     else s4);
               s6 = IoPageCacheEntryAddReference LowerEntry s5;
               s7 = entry_update UpperEntry (\<lambda>x. x\<lparr>BackingEntry := Some LowerEntry\<rparr>) s6;
               s8 = (if VirtualAddr \<noteq> 0
                     then s7\<lparr>MmUnmappedAddresses :=
                               MmUnmappedAddresses s7 @ [(VirtualAddr, MmPageSize s7)]\<rparr>
                     else s7);
               s9 = (if PhysicalAddr \<noteq> INVALID_PHYSICAL_ADDRESS
                     then free_physical_page PhysicalAddr s8 else s8)
           in (True, s9))"

subsection \<open>Flushing a buffer of pages\<close>

text \<open>
  ALIGN_RANGE_DOWN is the usual macro: it clears the bits below the (power of two) size.
\<close>

definition ALIGN_RANGE_DOWN :: "UINTN \<Rightarrow> UINTN \<Rightarrow> UINTN" where
  "ALIGN_RANGE_DOWN Value Size = Value AND NOT (Size - 1)"

text \<open>
  IopPerformNonCachedWrite is the block I/O path, outside the page cache: the model logs
  the request and takes the answer, a status and the bytes completed, from the script.
\<close>

definition IopPerformNonCachedWrite ::
  "file_ref \<Rightarrow> ULONGLONG \<Rightarrow> UINTN \<Rightarrow> page_cache \<Rightarrow> KSTATUS \<times> UINTN \<times> page_cache" where
  "IopPerformNonCachedWrite FileObj FileOffset SizeInBytes s =
     (let s1 = s\<lparr>WriteLog := WriteLog s @ [(FileObj, FileOffset, SizeInBytes)]\<rparr>
      in case WriteScript s of
           [] \<Rightarrow> (STATUS_SUCCESS, SizeInBytes, s1)
         | (Status, BytesCompleted) # rest \<Rightarrow>
             (Status, BytesCompleted, s1\<lparr>WriteScript := rest\<rparr>))"

text \<open>
  The first loop of IopFlushPageCacheBuffer. The I/O buffer is the list of its page cache
  entries; the loop reads it page by page from offset 0, so the entry at BufferOffset is
  the head of the pages not yet visited, and reading past the last page yields the NULL
  that the routine then dereferences (None). The result is the last entry read, Clean,
  BytesToWrite (always equal to BufferOffset here) and the state.
\<close>

fun flush_mark_clean ::
  "entry_ref list \<Rightarrow> UINTN \<Rightarrow> UINTN \<Rightarrow> entry_ref \<Rightarrow> bool \<Rightarrow> UINTN \<Rightarrow> page_cache
     \<Rightarrow> (entry_ref \<times> bool \<times> UINTN \<times> page_cache) option" where
  "flush_mark_clean [] PageSize Size CacheEntry Clean BufferOffset s =
     (if BufferOffset < Size then None else Some (CacheEntry, Clean, BufferOffset, s))"
| "flush_mark_clean (e # rest) PageSize Size CacheEntry Clean BufferOffset s =
     (if BufferOffset < Size then
        if \<not> NodeParent (Entries s e) then Some (e, Clean, BufferOffset, s)
        else
          let (MarkedClean, s1) = IopMarkPageCacheEntryClean e True s
          in flush_mark_clean rest PageSize Size e (if MarkedClean then False else Clean)
               (BufferOffset + PageSize) s1
      else Some (CacheEntry, Clean, BufferOffset, s))"

text \<open>
  The loop that marks the pages not written dirty again, reading the buffer from
  BufferOffset on. The result is the last entry read and the state.
\<close>

fun flush_mark_dirty ::
  "entry_ref list \<Rightarrow> UINTN \<Rightarrow> UINTN \<Rightarrow> entry_ref \<Rightarrow> UINTN \<Rightarrow> page_cache
     \<Rightarrow> (entry_ref \<times> page_cache) option" where
  "flush_mark_dirty [] PageSize BytesToWrite CacheEntry BufferOffset s =
     (if BufferOffset < BytesToWrite then None else Some (CacheEntry, s))"
| "flush_mark_dirty (e # rest) PageSize BytesToWrite CacheEntry BufferOffset s =
     (if BufferOffset < BytesToWrite then
        (case IopMarkPageCacheEntryDirty e s of
           None \<Rightarrow> None
         | Some (MarkedDirty, s1) \<Rightarrow>
             flush_mark_dirty rest PageSize BytesToWrite e (BufferOffset + PageSize) s1)
      else Some (CacheEntry, s))"

text \<open>
  The second half of IopFlushPageCacheBuffer, from the call of the non-cached write on:
  the write of BytesToWrite bytes at FileOffset, the status made of its answer, and on
  failure the pages marked dirty again from the completed bytes, aligned down, onwards.
\<close>

definition flush_buffer_write ::
  "entry_ref list \<Rightarrow> file_ref \<Rightarrow> ULONGLONG \<Rightarrow> UINTN \<Rightarrow> entry_ref \<Rightarrow> page_cache
     \<Rightarrow> (KSTATUS \<times> page_cache) option" where
  "flush_buffer_write Buffer FileObj FileOffset BytesToWrite CacheEntry s1 =
     (let PageSize = MmPageSize s1;
          (WriteStatus, BytesCompleted, s2) =
            IopPerformNonCachedWrite FileObj FileOffset BytesToWrite s1;
          Status =
            (if \<not> KSUCCESS WriteStatus then WriteStatus
             else if BytesCompleted \<noteq> BytesToWrite then STATUS_DATA_LENGTH_MISMATCH
             else STATUS_SUCCESS)
      in if \<not> KSUCCESS Status then
           let BufferOffset = ALIGN_RANGE_DOWN BytesCompleted PageSize
           in case flush_mark_dirty (drop (unat (BufferOffset div PageSize)) Buffer)
                     PageSize BytesToWrite CacheEntry BufferOffset s2 of
                None \<Rightarrow> None
              | Some (CacheEntry', s3) \<Rightarrow>
                  Some (Status,
                    if BytesCompleted \<noteq> BytesToWrite
                    then IopMarkFileObjectDirty (FileObject (Entries s3 CacheEntry')) s3
                    else s3)
         else Some (Status, s2))"

text \<open>
  IopFlushPageCacheBuffer. Of the I/O flags only IO_FLAG_DATA_SYNCHRONIZED matters to the
  page cache; it is the boolean argument.
\<close>

definition IopFlushPageCacheBuffer ::
  "entry_ref list \<Rightarrow> UINTN \<Rightarrow> bool \<Rightarrow> page_cache \<Rightarrow> (KSTATUS \<times> page_cache) option" where
  "IopFlushPageCacheBuffer Buffer Size DataSynchronized s =
     (case Buffer of
        [] \<Rightarrow> None
      | First # _ \<Rightarrow>
          let FileObj = FileObject (Entries s First);
              FileOffset = Offset (Entries s First);
              FileSz = FileSize (Files s FileObj)
          in case flush_mark_clean Buffer (MmPageSize s) Size First True 0 s of
               None \<Rightarrow> None
             | Some (CacheEntry, Clean, Bytes, s1) \<Rightarrow>
                 let BytesToWrite =
                       (if FileOffset + Bytes > FileSz then FileSz - FileOffset else Bytes)
                 in if BytesToWrite = 0 then Some (STATUS_SUCCESS, s1)
                    else if Clean \<and> \<not> DataSynchronized then Some (STATUS_SUCCESS, s1)
                    else flush_buffer_write Buffer FileObj FileOffset BytesToWrite
                           CacheEntry s1)"

subsection \<open>Flushing a file or a range of it\<close>

text \<open>
  The red-black tree of a file object is its entries in ascending offset order.
  RtlRedBlackTreeGetNextNode is the successor in that order.
  Modelled from the spec: RtlRedBlackTreeSearchClosest, asked for the closest node not
  below the search offset, is the lower bound of the offset in the tree.
\<close>

fun RtlRedBlackTreeGetNextNode :: "entry_ref list \<Rightarrow> entry_ref \<Rightarrow> entry_ref option" where
  "RtlRedBlackTreeGetNextNode [] n = None"
| "RtlRedBlackTreeGetNextNode [x] n = None"
| "RtlRedBlackTreeGetNextNode (x # y # rest) n =
     (if x = n then Some y else RtlRedBlackTreeGetNextNode (y # rest) n)"

definition RtlRedBlackTreeSearchClosest ::
  "entry_ref list \<Rightarrow> ULONGLONG \<Rightarrow> page_cache \<Rightarrow> entry_ref option" where
  "RtlRedBlackTreeSearchClosest tree SearchOffset s =
     find (\<lambda>e. SearchOffset \<le> Offset (Entries s e)) tree"

text \<open>The local variables of IopFlushPageCacheEntries that live across loop iterations.\<close>

record flush_state =
  Node :: "entry_ref option"
  FlushBuffer :: "entry_ref list"
  FlushNextOffset :: ULONGLONG
  FlushSize :: UINTN
  CleanStreak :: UINTN
  PagesFlushed :: UINTN
  BytesFlushed :: bool
  TotalStatus :: KSTATUS

text \<open>How one pass through the body of the loop ends.\<close>

datatype flush_exit =
    Continue flush_state page_cache
  | Break flush_state page_cache
  | Goto_End KSTATUS flush_state page_cache
  | Null_Dereference

text \<open>
  The arguments of IopFlushPageCacheEntries and what it learns from its surroundings:
  whether the caller is the page cache thread, and whether the flush buffer could be
  allocated.
\<close>

record flush_args =
  ArgFileObject :: file_ref
  ArgOffset :: ULONGLONG
  ArgSize :: ULONGLONG
  ArgDataSynchronized :: bool
  ArgPageCount :: "UINTN option"
  PageCacheThread :: bool
  BufferAllocated :: bool

definition whole_file :: "flush_args \<Rightarrow> bool" where
  "whole_file a = (ArgSize a = - 1 \<and> ArgOffset a = 0)"

text \<open>The decision whether the current entry is skipped, with the new clean streak.\<close>

definition flush_skip_entry ::
  "flush_args \<Rightarrow> entry_ref \<Rightarrow> flush_state \<Rightarrow> page_cache \<Rightarrow> bool \<times> UINTN" where
  "flush_skip_entry a CacheEntry st s =
     (let E = Entries s CacheEntry in
      if \<not> flag_set (Flags E) PAGE_CACHE_ENTRY_FLAG_DIRTY then
        let Skip1 =
              \<not> (ArgDataSynchronized a \<and>
                 (case BackingEntry E of
                    None \<Rightarrow> False
                  | Some b \<Rightarrow> flag_set (Flags (Entries s b)) PAGE_CACHE_ENTRY_FLAG_DIRTY))
        in if FlushSize st \<noteq> 0 \<and> Offset E = FlushNextOffset st
              \<and> CleanStreak st < PAGE_CACHE_FLUSH_MAX_CLEAN_STREAK
           then (False, CleanStreak st + 1)
           else (Skip1, CleanStreak st)
      else
        let Skip1 =
              (if Offset E + MmPageSize s \<le> ArgOffset a then True
               else if ArgSize a \<noteq> - 1 \<and> ArgOffset a + ArgSize a \<le> Offset E then True
               else False)
        in (Skip1, if \<not> Skip1 then 0 else CleanStreak st))"

text \<open>
  Writing the pending buffer out from inside the loop: the trailing clean pages are cut
  off the size, the buffer is flushed, the status recorded and the buffer reset.
\<close>

definition flush_pending ::
  "flush_args \<Rightarrow> flush_state \<Rightarrow> page_cache \<Rightarrow> (flush_state \<times> page_cache) option" where
  "flush_pending a st s =
     (let Size = FlushSize st - push_bit (MmPageShift s) (CleanStreak st)
      in case IopFlushPageCacheBuffer (FlushBuffer st) Size (ArgDataSynchronized a) s of
           None \<Rightarrow> None
         | Some (Status, s1) \<Rightarrow>
             Some ((if \<not> KSUCCESS Status then st\<lparr>TotalStatus := Status\<rparr>
                    else st\<lparr>BytesFlushed := True\<rparr>)
                     \<lparr>FlushBuffer := [], FlushSize := 0, CleanStreak := 0\<rparr>, s1))"

definition flush_body :: "flush_args \<Rightarrow> flush_state \<Rightarrow> page_cache \<Rightarrow> flush_exit" where
  "flush_body a st s =
     (let Tree = PageCacheTree (Files s (ArgFileObject a));
          Node1 = (case Node st of
                     None \<Rightarrow> None
                   | Some n \<Rightarrow> RtlRedBlackTreeGetNextNode Tree n);
          Node2 = (if Node1 = None \<and> whole_file a
                   then (case Lists s FlushLocalList of [] \<Rightarrow> None | e # _ \<Rightarrow> Some e)
                   else Node1)
      in case Node2 of
           None \<Rightarrow> Break (st\<lparr>Node := None\<rparr>) s
         | Some CacheEntry \<Rightarrow>
             let st1 = st\<lparr>Node := Some CacheEntry\<rparr> in
             if ArgSize a \<noteq> - 1 \<and> ArgOffset a + ArgSize a \<le> Offset (Entries s CacheEntry)
             then Break st1 s
             else
               let (SkipEntry, Streak) = flush_skip_entry a CacheEntry st1 s;
                   st2 = st1\<lparr>CleanStreak := Streak\<rparr>
               in if SkipEntry
                  then Continue (if whole_file a then st2\<lparr>Node := None\<rparr> else st2) s
                  else
                    let st3 = st2\<lparr>PagesFlushed := PagesFlushed st2 + 1\<rparr>;
                        Append = (FlushSize st3 = 0
                                  \<or> Offset (Entries s CacheEntry) = FlushNextOffset st3);
                        st4 = (if Append
                               then st3\<lparr>FlushBuffer := FlushBuffer st3 @ [CacheEntry],
                                        FlushSize := FlushSize st3 + MmPageSize s,
                                        FlushNextOffset :=
                                          Offset (Entries s CacheEntry) + MmPageSize s\<rparr>
                               else st3)
                    in if Append \<and> FlushSize st4 < PAGE_CACHE_FLUSH_MAX then Continue st4 s
                       else
                         let Handled = Append in
                         case flush_pending a st4 s of
                           None \<Rightarrow> Null_Dereference
                         | Some (st5, s1) \<Rightarrow>
                             if (case ArgPageCount a of
                                   None \<Rightarrow> False
                                 | Some PageCount \<Rightarrow> PageCount \<le> PagesFlushed st5)
                             then Break st5 s1
                             else
                               let st6 =
                                     (if \<not> Handled
                                      then st5\<lparr>FlushBuffer := FlushBuffer st5 @ [CacheEntry],
                                               FlushSize := MmPageSize s1,
                                               FlushNextOffset :=
                                                 Offset (Entries s1 CacheEntry) + MmPageSize s1\<rparr>
                                      else if whole_file a then st5\<lparr>Node := None\<rparr>
                                      else st5)
                               in if PageCacheThread a
                                     \<and> fst (IopIsPageCacheTooBig s1)
                                     \<and> IoPageCachePhysicalPageCount s1
                                          - IoPageCacheDirtyPageCount s1
                                        > IoPageCacheLowMemoryCleanPageMinimum s1
                                  then Goto_End STATUS_TRY_AGAIN st6 s1
                                  else Continue st6 s1)"

text \<open>
  The loop, with fuel: the source's loop has no bound of its own, and None says that the
  fuel did not suffice.
\<close>

fun flush_loop :: "nat \<Rightarrow> flush_args \<Rightarrow> flush_state \<Rightarrow> page_cache \<Rightarrow> flush_exit option" where
  "flush_loop 0 a st s = None"
| "flush_loop (Suc fuel) a st s =
     (case flush_body a st s of
        Continue st1 s1 \<Rightarrow> flush_loop fuel a st1 s1
      | other \<Rightarrow> Some other)"

text \<open>
  What follows the label FlushPageCacheEntriesEnd. The result is the status returned, the
  value left in the page count, and the state.
\<close>

definition flush_end ::
  "flush_args \<Rightarrow> KSTATUS \<Rightarrow> flush_state \<Rightarrow> page_cache \<Rightarrow> KSTATUS \<times> UINTN option \<times> page_cache" where
  "flush_end a Status st s =
     (let FileObj = ArgFileObject a;
          s1 = (if Lists s FlushLocalList \<noteq> []
                then s\<lparr>Lists := (Lists s)
                        (DirtyPageList FileObj :=
                           Lists s (DirtyPageList FileObj) @ Lists s FlushLocalList,
                         FlushLocalList := [])\<rparr>
                else s);
          Total1 = (if \<not> KSUCCESS Status \<and> KSUCCESS (TotalStatus st)
                    then Status else TotalStatus st);
          Total2 = (if BytesFlushed st \<and> Type (Files s1 FileObj) = IoObjectBlockDevice
                       \<and> \<not> ArgDataSynchronized a
                    then (if \<not> KSUCCESS (SynchronizeStatus s1)
                          then SynchronizeStatus s1 else Total1)
                    else Total1);
          PageCount' = (case ArgPageCount a of
                          None \<Rightarrow> None
                        | Some PageCount \<Rightarrow>
                            Some (if PagesFlushed st > PageCount then 0
                                  else PageCount - PagesFlushed st));
          s2 = (if \<not> KSUCCESS Total2
                then file_update FileObj (\<lambda>x. x\<lparr>DirtyData := True\<rparr>) s1 else s1)
      in (Total2, PageCount', s2))"

text \<open>What follows the loop when it ends by a break: the last pending buffer is flushed.\<close>

definition flush_after_loop ::
  "flush_args \<Rightarrow> flush_state \<Rightarrow> page_cache \<Rightarrow> (flush_state \<times> page_cache) option" where
  "flush_after_loop a st s =
     (let Size = FlushSize st - push_bit (MmPageShift s) (CleanStreak st)
      in if Size \<noteq> 0 then
           (case IopFlushPageCacheBuffer (FlushBuffer st) Size (ArgDataSynchronized a) s of
              None \<Rightarrow> None
            | Some (Status, s1) \<Rightarrow>
                Some ((if \<not> KSUCCESS Status then st\<lparr>TotalStatus := Status\<rparr>
                       else st\<lparr>BytesFlushed := True\<rparr>)\<lparr>FlushSize := Size\<rparr>, s1))
         else Some (st\<lparr>FlushSize := Size\<rparr>, s))"

definition flush_initial :: flush_state where
  "flush_initial = \<lparr>Node = None, FlushBuffer = [], FlushNextOffset = 0, FlushSize = 0,
     CleanStreak = 0, PagesFlushed = 0, BytesFlushed = False, TotalStatus = STATUS_SUCCESS\<rparr>"

text \<open>
  IopFlushPageCacheEntries up to the label FlushPageCacheEntriesEnd, with the given fuel
  for its loop: the value of Status there, the locals and the state. The outer None is a
  loop that outlasts the fuel; the inner None is a NULL dereference.
\<close>

definition flush_to_end ::
  "nat \<Rightarrow> flush_args \<Rightarrow> page_cache \<Rightarrow> (KSTATUS \<times> flush_state \<times> page_cache) option option" where
  "flush_to_end fuel a s =
     (let FileObj = ArgFileObject a;
          st0 = flush_initial;
          s1 = (if ArgOffset a = 0 \<and> ArgSize a = - 1 \<and> ArgPageCount a = None
                then file_update FileObj (\<lambda>x. x\<lparr>DirtyData := False\<rparr>) s else s)
      in if \<not> IO_IS_CACHEABLE_TYPE (Type (Files s1 FileObj))
         then Some (Some (STATUS_SUCCESS, st0, s1))
         else if Lists s1 (DirtyPageList FileObj) = []
         then Some (Some (STATUS_SUCCESS, st0, s1))
         else if \<not> BufferAllocated a
         then Some (Some (STATUS_INSUFFICIENT_RESOURCES, st0, s1))
         else
           let st1 = st0\<lparr>FlushNextOffset := ArgOffset a\<rparr>;
               st2 = (if ArgSize a \<noteq> - 1 \<or> ArgOffset a \<noteq> 0
                      then st1\<lparr>Node := RtlRedBlackTreeSearchClosest
                                        (PageCacheTree (Files s1 FileObj)) (ArgOffset a) s1\<rparr>
                      else st1);
               s2 = (if ArgSize a \<noteq> - 1 \<or> ArgOffset a \<noteq> 0 then s1
                     else if Lists s1 (DirtyPageList FileObj) \<noteq> []
                     then s1\<lparr>Lists := (Lists s1)
                             (FlushLocalList := Lists s1 (DirtyPageList FileObj),
                              DirtyPageList FileObj := [])\<rparr>
                     else s1)
           in case flush_loop fuel a st2 s2 of
                None \<Rightarrow> None
              | Some (Continue st3 s3) \<Rightarrow> None
              | Some Null_Dereference \<Rightarrow> Some None
              | Some (Goto_End Status st3 s3) \<Rightarrow> Some (Some (Status, st3, s3))
              | Some (Break st3 s3) \<Rightarrow>
                  (case flush_after_loop a st3 s3 of
                     None \<Rightarrow> Some None
                   | Some (st4, s4) \<Rightarrow> Some (Some (STATUS_SUCCESS, st4, s4))))"

text \<open>
  IopFlushPageCacheEntries: the status returned, the value left in the page count, and
  the state.
\<close>

definition IopFlushPageCacheEntries ::
  "nat \<Rightarrow> flush_args \<Rightarrow> page_cache \<Rightarrow> (KSTATUS \<times> UINTN option \<times> page_cache) option option" where
  "IopFlushPageCacheEntries fuel a s =
     (case flush_to_end fuel a s of
        None \<Rightarrow> None
      | Some None \<Rightarrow> Some None
      | Some (Some (Status, st, s1)) \<Rightarrow> Some (Some (flush_end a Status st s1)))"

subsection \<open>The device as the flush sees it\<close>

text \<open>
  The answer the script holds for the next write, of the given size, and the status
  IopFlushPageCacheBuffer makes of an answer: the device's error, or
  STATUS_DATA_LENGTH_MISMATCH when the bytes completed are not the bytes asked for.
\<close>

definition write_answer :: "(KSTATUS \<times> UINTN) list \<Rightarrow> UINTN \<Rightarrow> KSTATUS \<times> UINTN" where
  "write_answer script n = (case script of [] \<Rightarrow> (STATUS_SUCCESS, n) | x # _ \<Rightarrow> x)"

definition write_outcome :: "KSTATUS \<times> UINTN \<Rightarrow> UINTN \<Rightarrow> KSTATUS" where
  "write_outcome answer n =
     (if \<not> KSUCCESS (fst answer) then fst answer
      else if snd answer \<noteq> n then STATUS_DATA_LENGTH_MISMATCH
      else STATUS_SUCCESS)"

text \<open>The outcomes of a sequence of writes answered by a script, in order.\<close>

fun write_outcomes ::
  "(KSTATUS \<times> UINTN) list \<Rightarrow> (file_ref \<times> ULONGLONG \<times> UINTN) list \<Rightarrow> KSTATUS list" where
  "write_outcomes script [] = []"
| "write_outcomes script ((f, off, n) # reqs) =
     write_outcome (write_answer script n) n # write_outcomes (tl script) reqs"

text \<open>The last status of a list that is not a success, or the given status if all are.\<close>

definition last_error :: "KSTATUS \<Rightarrow> KSTATUS list \<Rightarrow> KSTATUS" where
  "last_error Status xs = foldl (\<lambda>t x. if KSUCCESS x then t else x) Status xs"

text \<open>
  Two states that differ in nothing the device and the file object layer own: the write
  log and script, the synchronisation status, the page shift and the file types.
\<close>

definition same_device :: "page_cache \<Rightarrow> page_cache \<Rightarrow> bool" where
  "same_device s s' =
     (WriteLog s' = WriteLog s \<and> WriteScript s' = WriteScript s
      \<and> SynchronizeStatus s' = SynchronizeStatus s \<and> MmPageShift s' = MmPageShift s
      \<and> (\<forall>f. Type (Files s' f) = Type (Files s f))
      \<and> (\<forall>f. FileSize (Files s' f) = FileSize (Files s f)))"

text \<open>
  What the flush loop has done between two of its points: it issued the writes reqs, the
  script answered them in order, its total status is the last failed outcome among them
  (or what it was), and nothing else of the device changed.
\<close>

definition flush_progress ::
  "flush_state \<Rightarrow> page_cache \<Rightarrow> flush_state \<Rightarrow> page_cache
     \<Rightarrow> (file_ref \<times> ULONGLONG \<times> UINTN) list \<Rightarrow> bool" where
  "flush_progress st s st' s' reqs =
     (WriteLog s' = WriteLog s @ reqs
      \<and> WriteScript s' = drop (length reqs) (WriteScript s)
      \<and> TotalStatus st' = last_error (TotalStatus st) (write_outcomes (WriteScript s) reqs)
      \<and> SynchronizeStatus s' = SynchronizeStatus s \<and> MmPageShift s' = MmPageShift s
      \<and> (\<forall>f. Type (Files s' f) = Type (Files s f)))"

subsection \<open>Owners and dirtiness\<close>

text \<open>
  The entry that marking an entry dirty acts on: the entry itself if it owns its page,
  else its backing entry (NULL if it has none). And whether an entry's DIRTY flag is set.
\<close>

definition owner_entry :: "page_cache \<Rightarrow> entry_ref \<Rightarrow> entry_ref option" where
  "owner_entry s e =
     (if \<not> flag_set (Flags (Entries s e)) PAGE_CACHE_ENTRY_FLAG_PAGE_OWNER
      then BackingEntry (Entries s e) else Some e)"

definition entry_dirty :: "page_cache \<Rightarrow> entry_ref \<Rightarrow> bool" where
  "entry_dirty s e = flag_set (Flags (Entries s e)) PAGE_CACHE_ENTRY_FLAG_DIRTY"

text \<open>Whether an entry owns its physical page.\<close>

definition page_owner :: "page_cache \<Rightarrow> entry_ref \<Rightarrow> bool" where
  "page_owner s e = flag_set (Flags (Entries s e)) PAGE_CACHE_ENTRY_FLAG_PAGE_OWNER"

subsection \<open>Removing and destroying entries\<close>

definition IopRemovePageCacheEntryFromTree :: "entry_ref \<Rightarrow> page_cache \<Rightarrow> page_cache" where
  "IopRemovePageCacheEntryFromTree PageCacheEntry s =
     (let s1 = file_update (FileObject (Entries s PageCacheEntry))
                 (\<lambda>x. x\<lparr>PageCacheTree := removeAll PageCacheEntry (PageCacheTree x)\<rparr>) s;
          s2 = entry_update PageCacheEntry (\<lambda>x. x\<lparr>NodeParent := False\<rparr>) s1
      in s2\<lparr>IoPageCacheEntryCount := IoPageCacheEntryCount s2 - 1\<rparr>)"

text \<open>
  IopDestroyPageCacheEntry. Releasing the file object reference and freeing the block of
  the entry belong to the file object layer and to MM.
\<close>

definition IopDestroyPageCacheEntry :: "entry_ref \<Rightarrow> page_cache \<Rightarrow> page_cache" where
  "IopDestroyPageCacheEntry PageCacheEntry s =
     (if flag_set (Flags (Entries s PageCacheEntry)) PAGE_CACHE_ENTRY_FLAG_PAGE_OWNER then
        let s1 = (if flag_set (Flags (Entries s PageCacheEntry)) PAGE_CACHE_ENTRY_FLAG_MAPPED
                  then
                    let a = s\<lparr>MmUnmappedAddresses := MmUnmappedAddresses s @
                                [(VirtualAddress (Entries s PageCacheEntry), MmPageSize s)]\<rparr>;
                        b = a\<lparr>IoPageCacheMappedPageCount := IoPageCacheMappedPageCount a - 1\<rparr>;
                        c = entry_update PageCacheEntry
                              (\<lambda>x. x\<lparr>Flags := Flags x AND NOT PAGE_CACHE_ENTRY_FLAG_MAPPED\<rparr>) b
                    in entry_update PageCacheEntry (\<lambda>x. x\<lparr>VirtualAddress := 0\<rparr>) c
                  else s);
            s2 = free_physical_page (PhysicalAddress (Entries s1 PageCacheEntry)) s1
        in entry_update PageCacheEntry
             (\<lambda>x. x\<lparr>PhysicalAddress := INVALID_PHYSICAL_ADDRESS\<rparr>) s2
      else
        (case BackingEntry (Entries s PageCacheEntry) of
           None \<Rightarrow> s
         | Some Backing \<Rightarrow>
             entry_update PageCacheEntry (\<lambda>x. x\<lparr>BackingEntry := None\<rparr>)
               (IoPageCacheEntryReleaseReference Backing s)))"

text \<open>
  IopDestroyPageCacheEntries: the list it empties is the destroy list on the stack of its
  caller.
\<close>

function IopDestroyPageCacheEntries :: "page_cache \<Rightarrow> page_cache" where
  "IopDestroyPageCacheEntries s =
     (case Lists s DestroyListHead of
        [] \<Rightarrow> s
      | PageCacheEntry # _ \<Rightarrow>
          IopDestroyPageCacheEntries
            (IopDestroyPageCacheEntry PageCacheEntry
               (entry_update PageCacheEntry (\<lambda>x. x\<lparr>ListEntryNext := False\<rparr>)
                  (LIST_REMOVE PageCacheEntry s))))"
  by pat_completeness auto
termination
proof (relation "measure (\<lambda>s. length (Lists s DestroyListHead))")
  show "wf (measure (\<lambda>s. length (Lists s DestroyListHead)))" by simp
next
  fix s :: page_cache and e rest
  assume l: "Lists s DestroyListHead = e # rest"
  let ?s1 = "entry_update e (\<lambda>x. x\<lparr>ListEntryNext := False\<rparr>) (LIST_REMOVE e s)"
  have a: "Lists ?s1 DestroyListHead = removeAll e rest"
    by (simp add: entry_update_def LIST_REMOVE_def l)
  have b: "Lists (IopDestroyPageCacheEntry e ?s1) DestroyListHead = Lists ?s1 DestroyListHead"
    by (simp add: IopDestroyPageCacheEntry_def IoPageCacheEntryReleaseReference_def
          INSERT_BEFORE_def entry_update_def free_physical_page_def Let_def
          split: option.splits)
  have "length (removeAll e rest) < Suc (length rest)"
    by (simp add: removeAll_filter_not_eq less_Suc_eq_le)
  then show "(IopDestroyPageCacheEntry e ?s1, s) \<in> measure (\<lambda>s. length (Lists s DestroyListHead))"
    unfolding in_measure a b l by simp
qed

declare IopDestroyPageCacheEntries.simps [simp del]

text \<open>
  The part of a pass of the loop of IopRemovePageCacheEntriesFromList that runs with the
  reference and the file object lock held: it tries to take the entry down and returns
  PageTakenDown and what is left of the target. TargetRemoveCount is None when the caller
  passes no pointer. None as a result is a NULL dereference.
\<close>

definition remove_take_down ::
  "entry_ref \<Rightarrow> UINTN option \<Rightarrow> page_cache \<Rightarrow> (bool \<times> UINTN option \<times> page_cache) option" where
  "remove_take_down e TargetRemoveCount s1 =
     (if ReferenceCount (Entries s1 e) = 1 then
        let (Status, PageWasDirty) = IopUnmapPageCacheEntrySections e s1 in
        if KSUCCESS Status then
          (case (if PageWasDirty
                 then map_option snd (IopMarkPageCacheEntryDirty e s1)
                 else Some s1) of
             None \<Rightarrow> None
           | Some s2 \<Rightarrow>
               let EntryFlags = (if PageWasDirty then Flags (Entries s2 e)
                                 else Flags (Entries s1 e))
               in if \<not> flag_set EntryFlags PAGE_CACHE_ENTRY_FLAG_DIRTY then
                    let s3 = snd (IopMarkPageCacheEntryClean e False s2);
                        s4 = (if NodeParent (Entries s3 e)
                              then IopRemovePageCacheEntryFromTree e s3 else s3)
                    in Some (True,
                         if flag_set EntryFlags PAGE_CACHE_ENTRY_FLAG_PAGE_OWNER
                         then map_option (\<lambda>t. t - 1) TargetRemoveCount
                         else TargetRemoveCount,
                         s4)
                  else Some (False, TargetRemoveCount, s2))
        else Some (False, TargetRemoveCount, s1)
      else Some (False, TargetRemoveCount, s1))"

text \<open>One pass of the loop over the head of its local list.\<close>

definition remove_step ::
  "bool \<Rightarrow> UINTN option \<Rightarrow> page_cache \<Rightarrow> (UINTN option \<times> page_cache) option" where
  "remove_step TimidEffort TargetRemoveCount s =
     (case Lists s RemoveLocalList of
        [] \<Rightarrow> Some (TargetRemoveCount, s)
      | e # _ \<Rightarrow>
          if ReferenceCount (Entries s e) \<noteq> 0 then
            let s1 = entry_update e (\<lambda>x. x\<lparr>ListEntryNext := False\<rparr>) (LIST_REMOVE e s)
            in Some (TargetRemoveCount,
                 if ReferenceCount (Entries s1 e) = 0
                 then INSERT_BEFORE e IoPageCacheCleanList s1 else s1)
          else if flag_set (Flags (Entries s e)) PAGE_CACHE_ENTRY_FLAG_DIRTY then
            Some (TargetRemoveCount,
              entry_update e (\<lambda>x. x\<lparr>ListEntryNext := False\<rparr>) (LIST_REMOVE e s))
          else if TimidEffort \<and> \<not> LockAvailable s (FileObject (Entries s e)) then
            Some (TargetRemoveCount, INSERT_BEFORE e IoPageCacheCleanList (LIST_REMOVE e s))
          else
            (case remove_take_down e TargetRemoveCount (IoPageCacheEntryAddReference e s) of
               None \<Rightarrow> None
             | Some (PageTakenDown, Target, s5) \<Rightarrow>
                 let s6 = (if PageTakenDown then
                             INSERT_BEFORE e DestroyListHead
                               (if ListEntryNext (Entries s5 e) then LIST_REMOVE e s5 else s5)
                           else if \<not> flag_set (Flags (Entries s5 e)) PAGE_CACHE_ENTRY_FLAG_DIRTY
                           then INSERT_BEFORE e IoPageCacheCleanList (LIST_REMOVE e s5)
                           else s5)
                 in Some (Target, IoPageCacheEntryReleaseReference e s6)))"

text \<open>
  The loop, with fuel. The outer None is a loop that outlasts the fuel, the inner None a
  NULL dereference.
\<close>

fun remove_loop ::
  "nat \<Rightarrow> bool \<Rightarrow> UINTN option \<Rightarrow> page_cache \<Rightarrow> (UINTN option \<times> page_cache) option option" where
  "remove_loop 0 TimidEffort Target s =
     (if Lists s RemoveLocalList \<noteq> [] \<and> Target \<noteq> Some 0 then None
      else Some (Some (Target, s)))"
| "remove_loop (Suc fuel) TimidEffort Target s =
     (if Lists s RemoveLocalList \<noteq> [] \<and> Target \<noteq> Some 0 then
        (case remove_step TimidEffort Target s of
           None \<Rightarrow> Some None
         | Some (Target', s1) \<Rightarrow> remove_loop fuel TimidEffort Target' s1)
      else Some (Some (Target, s)))"

definition IopRemovePageCacheEntriesFromList ::
  "nat \<Rightarrow> LIST_HEAD \<Rightarrow> bool \<Rightarrow> UINTN option \<Rightarrow> page_cache
     \<Rightarrow> (UINTN option \<times> page_cache) option option" where
  "IopRemovePageCacheEntriesFromList fuel PageCacheListHead TimidEffort TargetRemoveCount s =
     (if Lists s PageCacheListHead = [] then Some (Some (TargetRemoveCount, s))
      else
        let s1 = s\<lparr>Lists := (Lists s)(RemoveLocalList := Lists s PageCacheListHead,
                                        PageCacheListHead := [])\<rparr>
        in case remove_loop fuel TimidEffort TargetRemoveCount s1 of
             None \<Rightarrow> None
           | Some None \<Rightarrow> Some None
           | Some (Some (Target, s2)) \<Rightarrow>
               Some (Some (Target,
                 if Lists s2 RemoveLocalList \<noteq> []
                 then s2\<lparr>Lists := (Lists s2)
                         (PageCacheListHead :=
                            Lists s2 PageCacheListHead @ Lists s2 RemoveLocalList,
                          RemoveLocalList := [])\<rparr>
                 else s2)))"

subsection \<open>Trimming\<close>

definition IopIsPageCacheTooMapped :: "page_cache \<Rightarrow> bool \<times> UINTN option" where
  "IopIsPageCacheTooMapped s =
     (let FreePages = drop_bit (MmPageShift s) (MmFreeVirtualMemory s)
      in if FreePages > IoPageCacheHeadroomVirtualPagesTrigger s \<and> \<not> MmVirtualWarning s
         then (False, None)
         else if IoPageCacheMappedPageCount s = 0 then (False, None)
         else (True, Some FreePages))"

text \<open>
  IopRemovePageCacheEntryVirtualAddress returns the status and the virtual address to
  unmap (0 for NULL). None is the dereference of a NULL backing entry.
\<close>

definition IopRemovePageCacheEntryVirtualAddress ::
  "entry_ref \<Rightarrow> page_cache \<Rightarrow> (KSTATUS \<times> 64 word \<times> page_cache) option" where
  "IopRemovePageCacheEntryVirtualAddress Entry s =
     (if ReferenceCount (Entries s Entry) \<noteq> 1
         \<or> flag_set (Flags (Entries s Entry)) PAGE_CACHE_ENTRY_FLAG_DIRTY
      then Some (STATUS_RESOURCE_IN_USE, 0, s)
      else
        (case
           (if flag_set (Flags (Entries s Entry)) PAGE_CACHE_ENTRY_FLAG_PAGE_OWNER then
              Some (Some (None, Flags (Entries s Entry),
                entry_update Entry
                  (\<lambda>x. x\<lparr>Flags := Flags x AND NOT PAGE_CACHE_ENTRY_FLAG_MAPPED\<rparr>) s))
            else
              (case BackingEntry (Entries s Entry) of
                 None \<Rightarrow> None
               | Some Backing \<Rightarrow>
                   if ReferenceCount (Entries s Backing) \<noteq> 1
                      \<or> flag_set (Flags (Entries s Backing)) PAGE_CACHE_ENTRY_FLAG_DIRTY
                   then Some None
                   else Some (Some (Some Backing, Flags (Entries s Backing),
                          entry_update Backing
                            (\<lambda>x. x\<lparr>Flags := Flags x AND NOT PAGE_CACHE_ENTRY_FLAG_MAPPED\<rparr>)
                            s)))) of
           None \<Rightarrow> None
         | Some None \<Rightarrow> Some (STATUS_RESOURCE_IN_USE, 0, s)
         | Some (Some (Backing, OldFlags, s1)) \<Rightarrow>
             if flag_set OldFlags PAGE_CACHE_ENTRY_FLAG_MAPPED then
               let (Address, s2) =
                     (case Backing of
                        Some b \<Rightarrow> (VirtualAddress (Entries s1 b),
                                   entry_update b (\<lambda>x. x\<lparr>VirtualAddress := 0\<rparr>) s1)
                      | None \<Rightarrow> (VirtualAddress (Entries s1 Entry), s1));
                   s3 = entry_update Entry (\<lambda>x. x\<lparr>VirtualAddress := 0\<rparr>) s2
               in Some (STATUS_SUCCESS, Address,
                    if flag_set OldFlags PAGE_CACHE_ENTRY_FLAG_DIRTY
                    then s3\<lparr>IoPageCacheMappedDirtyPageCount :=
                              IoPageCacheMappedDirtyPageCount s3 - 1\<rparr>
                    else s3)
             else Some (STATUS_SUCCESS, 0, s1)))"

text \<open>
  One pass of the loop of IopTrimPageCacheVirtual over the head of the clean list. The
  locals are the start and size of the run of addresses to unmap and the count of
  unmapped entries.
\<close>

definition trim_virtual_step ::
  "bool \<Rightarrow> 64 word \<times> UINTN \<times> UINTN \<Rightarrow> page_cache
     \<Rightarrow> ((64 word \<times> UINTN \<times> UINTN) \<times> page_cache) option" where
  "trim_virtual_step TimidEffort locals s =
     (case Lists s IoPageCacheCleanList of
        [] \<Rightarrow> Some (locals, s)
      | e # _ \<Rightarrow>
          if ReferenceCount (Entries s e) \<noteq> 0 then
            let s1 = entry_update e (\<lambda>x. x\<lparr>ListEntryNext := False\<rparr>) (LIST_REMOVE e s)
            in Some (locals,
                 if ReferenceCount (Entries s1 e) = 0
                 then INSERT_BEFORE e IoPageCacheCleanList s1 else s1)
          else if flag_set (Flags (Entries s e)) PAGE_CACHE_ENTRY_FLAG_DIRTY then
            Some (locals,
              entry_update e (\<lambda>x. x\<lparr>ListEntryNext := False\<rparr>) (LIST_REMOVE e s))
          else if VirtualAddress (Entries s e) = 0 then
            Some (locals, INSERT_BEFORE e IoPageCacheCleanUnmappedList (LIST_REMOVE e s))
          else if TimidEffort \<and> \<not> LockAvailable s (FileObject (Entries s e)) then
            Some (locals, INSERT_BEFORE e ReturnList (LIST_REMOVE e s))
          else
            (case IopRemovePageCacheEntryVirtualAddress e (IoPageCacheEntryAddReference e s) of
               None \<Rightarrow> None
             | Some (Status, Address, s1) \<Rightarrow>
                 let (UnmapStart, UnmapSize, UnmapCount) = locals;
                     (locals', s2) =
                       (if Address \<noteq> 0 then
                          let (Start1, Size1, s') =
                                (if UnmapStart \<noteq> 0 \<and> Address \<noteq> UnmapStart + UnmapSize
                                 then (0, 0, s1\<lparr>MmUnmappedAddresses :=
                                          MmUnmappedAddresses s1 @ [(UnmapStart, UnmapSize)]\<rparr>)
                                 else (UnmapStart, UnmapSize, s1))
                          in (((if Start1 = 0 then Address else Start1),
                               Size1 + MmPageSize s', UnmapCount + 1), s')
                        else (locals, s1));
                     s3 = (if \<not> flag_set (Flags (Entries s2 e)) PAGE_CACHE_ENTRY_FLAG_DIRTY
                           then INSERT_BEFORE e IoPageCacheCleanUnmappedList
                                  (if ListEntryNext (Entries s2 e) then LIST_REMOVE e s2 else s2)
                           else s2)
                 in Some (locals', IoPageCacheEntryReleaseReference e s3)))"

fun trim_virtual_loop ::
  "nat \<Rightarrow> bool \<Rightarrow> UINTN \<Rightarrow> 64 word \<times> UINTN \<times> UINTN \<Rightarrow> page_cache
     \<Rightarrow> ((64 word \<times> UINTN \<times> UINTN) \<times> page_cache) option option" where
  "trim_virtual_loop 0 TimidEffort TargetUnmapCount locals s =
     (if Lists s IoPageCacheCleanList \<noteq> []
         \<and> (TargetUnmapCount \<noteq> snd (snd locals) \<or> MmVirtualWarning s)
      then None else Some (Some (locals, s)))"
| "trim_virtual_loop (Suc fuel) TimidEffort TargetUnmapCount locals s =
     (if Lists s IoPageCacheCleanList \<noteq> []
         \<and> (TargetUnmapCount \<noteq> snd (snd locals) \<or> MmVirtualWarning s)
      then (case trim_virtual_step TimidEffort locals s of
              None \<Rightarrow> Some None
            | Some (locals', s1) \<Rightarrow>
                trim_virtual_loop fuel TimidEffort TargetUnmapCount locals' s1)
      else Some (Some (locals, s)))"

definition IopTrimPageCacheVirtual :: "nat \<Rightarrow> bool \<Rightarrow> page_cache \<Rightarrow> page_cache option option" where
  "IopTrimPageCacheVirtual fuel TimidEffort s =
     (if Lists s IoPageCacheCleanList = [] \<or> \<not> fst (IopIsPageCacheTooMapped s) then Some (Some s)
      else
        let FreeVirtualPages = (case snd (IopIsPageCacheTooMapped s) of
                                  Some f \<Rightarrow> f | None \<Rightarrow> - 1);
            Target0 = (if FreeVirtualPages < IoPageCacheHeadroomVirtualPagesRetreat s
                       then IoPageCacheHeadroomVirtualPagesRetreat s - FreeVirtualPages
                       else 0);
            MappedCleanPageCount = IoPageCacheMappedPageCount s
                                     - IoPageCacheMappedDirtyPageCount s;
            Target1 = (if Target0 > MappedCleanPageCount then MappedCleanPageCount
                       else Target0)
        in if Target1 = 0 \<and> \<not> MmVirtualWarning s then Some (Some s)
           else
             let TargetUnmapCount =
                   (if Target1 = 0
                    then IoPageCacheHeadroomVirtualPagesRetreat s
                           - IoPageCacheHeadroomVirtualPagesTrigger s
                    else Target1);
                 s0 = s\<lparr>Lists := (Lists s)(ReturnList := [])\<rparr>
             in case trim_virtual_loop fuel TimidEffort TargetUnmapCount (0, 0, 0) s0 of
                  None \<Rightarrow> None
                | Some None \<Rightarrow> Some None
                | Some (Some ((UnmapStart, UnmapSize, UnmapCount), s1)) \<Rightarrow>
                    let s2 = (if Lists s1 ReturnList \<noteq> []
                              then s1\<lparr>Lists := (Lists s1)
                                      (IoPageCacheCleanList :=
                                         Lists s1 IoPageCacheCleanList @ Lists s1 ReturnList,
                                       ReturnList := [])\<rparr>
                              else s1);
                        s3 = (if UnmapStart \<noteq> 0
                              then s2\<lparr>MmUnmappedAddresses :=
                                      MmUnmappedAddresses s2 @ [(UnmapStart, UnmapSize)]\<rparr>
                              else s2)
                    in Some (Some
                         (if UnmapCount \<noteq> 0
                          then s3\<lparr>IoPageCacheMappedPageCount :=
                                  IoPageCacheMappedPageCount s3 - UnmapCount\<rparr>
                          else s3)))"

text \<open>
  The target that IopTrimPageCache computes once the cache is too big, from the free
  physical pages that IopIsPageCacheTooBig returned.
\<close>

definition trim_target :: "page_cache \<Rightarrow> UINTN \<Rightarrow> UINTN" where
  "trim_target s FreePhysicalPages =
     (let Target0 = IoPageCacheHeadroomPagesRetreat s - FreePhysicalPages;
          Target1 = (if Target0 > IoPageCachePhysicalPageCount s
                     then IoPageCachePhysicalPageCount s else Target0)
      in if IoPageCachePhysicalPageCount s - Target1 < IoPageCacheMinimumPages s
         then IoPageCachePhysicalPageCount s - IoPageCacheMinimumPages s
         else Target1)"

text \<open>
  The first part of IopTrimPageCache, up to the label TrimPageCacheEnd: it returns what is
  left of TargetRemoveCount and the free physical pages it read (- 1 when it read none).
\<close>

definition trim_physical ::
  "nat \<Rightarrow> bool \<Rightarrow> page_cache \<Rightarrow> (UINTN \<times> UINTN \<times> page_cache) option option" where
  "trim_physical fuel TimidEffort s =
     (if \<not> fst (IopIsPageCacheTooBig s) then Some (Some (0, - 1, s))
      else
        let FreePhysicalPages = (case snd (IopIsPageCacheTooBig s) of
                                   Some f \<Rightarrow> f | None \<Rightarrow> - 1);
            s0 = s\<lparr>Lists := (Lists s)(DestroyListHead := [])\<rparr>
        in case (if Lists s0 IoPageCacheCleanUnmappedList \<noteq> []
                 then IopRemovePageCacheEntriesFromList fuel IoPageCacheCleanUnmappedList
                        TimidEffort (Some (trim_target s FreePhysicalPages)) s0
                 else Some (Some (Some (trim_target s FreePhysicalPages), s0))) of
             None \<Rightarrow> None
           | Some None \<Rightarrow> Some None
           | Some (Some (Target3, s1)) \<Rightarrow>
               (case (if Target3 \<noteq> Some 0
                      then IopRemovePageCacheEntriesFromList fuel IoPageCacheCleanList
                             TimidEffort Target3 s1
                      else Some (Some (Target3, s1))) of
                  None \<Rightarrow> None
                | Some None \<Rightarrow> Some None
                | Some (Some (Target4, s2)) \<Rightarrow>
                    Some (Some ((case Target4 of Some t \<Rightarrow> t | None \<Rightarrow> 0),
                                FreePhysicalPages,
                                IopDestroyPageCacheEntries s2))))"

definition IopTrimPageCache :: "nat \<Rightarrow> bool \<Rightarrow> page_cache \<Rightarrow> page_cache option option" where
  "IopTrimPageCache fuel TimidEffort s =
     (case trim_physical fuel TimidEffort s of
        None \<Rightarrow> None
      | Some None \<Rightarrow> Some None
      | Some (Some (TargetRemoveCount, FreePhysicalPages, s1)) \<Rightarrow>
          (case IopTrimPageCacheVirtual fuel TimidEffort s1 of
             None \<Rightarrow> None
           | Some None \<Rightarrow> Some None
           | Some (Some s2) \<Rightarrow>
               Some (Some
                 (if TargetRemoveCount \<noteq> 0
                     \<and> IoPageCachePhysicalPageCount s2 < IoPageCacheMinimumPagesTarget s2
                  then
                    let PageOutCount = IoPageCacheMinimumPagesTarget s2
                                         - IoPageCachePhysicalPageCount s2
                    in s2\<lparr>PagingOutRequests :=
                           PagingOutRequests s2 @ [FreePhysicalPages + PageOutCount]\<rparr>
                  else s2))))"

subsection \<open>What a trim leaves alone\<close>

text \<open>
  The number of page owners on the destroy list. Then the relation between two states of
  which the second has the physical page count, the pages given back to MM, the paging
  out requests, the minimum pages target and the PAGE_OWNER flags of the first, and a
  destroy list that holds no entry more often, the entries of the list Added apart. Last,
  what the removal of entries keeps: the same, with a target that went down by at least
  the number of page owners that reached the destroy list.
\<close>

definition owners_on_destroy_list :: "page_cache \<Rightarrow> nat" where
  "owners_on_destroy_list s = length (filter (page_owner s) (Lists s DestroyListHead))"

definition trim_frame :: "entry_ref list \<Rightarrow> page_cache \<Rightarrow> page_cache \<Rightarrow> bool" where
  "trim_frame Added s s' \<longleftrightarrow>
     IoPageCachePhysicalPageCount s' = IoPageCachePhysicalPageCount s
     \<and> MmFreedPages s' = MmFreedPages s
     \<and> PagingOutRequests s' = PagingOutRequests s
     \<and> IoPageCacheMinimumPagesTarget s' = IoPageCacheMinimumPagesTarget s
     \<and> (\<forall>x. page_owner s' x = page_owner s x)
     \<and> (\<forall>P. length (filter P (Lists s' DestroyListHead))
              \<le> length (filter P (Lists s DestroyListHead)) + length (filter P Added))"

definition remove_progress :: "page_cache \<Rightarrow> UINTN \<Rightarrow> page_cache \<Rightarrow> UINTN \<Rightarrow> bool" where
  "remove_progress s t s' t' \<longleftrightarrow>
     IoPageCachePhysicalPageCount s' = IoPageCachePhysicalPageCount s
     \<and> MmFreedPages s' = MmFreedPages s
     \<and> PagingOutRequests s' = PagingOutRequests s
     \<and> IoPageCacheMinimumPagesTarget s' = IoPageCacheMinimumPagesTarget s
     \<and> (\<forall>x. page_owner s' x = page_owner s x)
     \<and> owners_on_destroy_list s' + unat t' \<le> owners_on_destroy_list s + unat t"

subsection \<open>States used as concrete inputs\<close>

definition blank_entry :: PAGE_CACHE_ENTRY where
  "blank_entry = \<lparr>NodeParent = False, ListEntryNext = False, FileObject = 0, Offset = 0,
     PhysicalAddress = 0, VirtualAddress = 0, BackingEntry = None, ReferenceCount = 0,
     Flags = 0\<rparr>"

definition blank_file :: FILE_OBJECT where
  "blank_file = \<lparr>DirtyData = False, Type = IoObjectRegularFile, FileSize = 0,
     PageCacheTree = [], ImageSectionList = False\<rparr>"

definition blank_cache :: page_cache where
  "blank_cache = \<lparr>Entries = (\<lambda>_. blank_entry), Files = (\<lambda>_. blank_file),
     Lists = (\<lambda>_. []),
     IoPageCacheEntryCount = 0,
     IoPageCacheHeadroomPagesRetreat = 0,
     IoPageCacheHeadroomPagesTrigger = 0,
     IoPageCacheMinimumPagesTarget = 0,
     IoPageCacheMinimumPages = 0,
     IoPageCacheLowMemoryCleanPageMinimum = 0,
     IoPageCachePhysicalPageCount = 0,
     IoPageCacheDirtyPageCount = 0,
     IoPageCacheMappedPageCount = 0,
     IoPageCacheMappedDirtyPageCount = 0,
     IoPageCacheDisableVirtualAddresses = False,
     MmFreePhysicalPages = 0,
     MmUnmapImageSectionList = (\<lambda>_. (STATUS_SUCCESS, False)),
     WriteScript = [],
     SynchronizeStatus = STATUS_SUCCESS,
     WriteLog = [],
     PagingOutRequests = [],
     MmFreedPages = [],
     MmUnmappedAddresses = [],
     MmPageShift = 12,
     IoPageCacheHeadroomVirtualPagesRetreat = 0,
     IoPageCacheHeadroomVirtualPagesTrigger = 0,
     MmFreeVirtualMemory = - 1,
     MmVirtualWarning = False,
     LockAvailable = (\<lambda>_. True)\<rparr>"

text \<open>
  A block device (file object 0) and a regular file (file object 1) whose entries at
  offset 0 are linked: entry 0 of the device owns the page, is on the clean list and
  carries the reference of entry 1, the file's entry, which it backs.
\<close>

definition linked_pair :: page_cache where
  "linked_pair = blank_cache\<lparr>
     Entries := (\<lambda>_. blank_entry)
       (0 := blank_entry\<lparr>NodeParent := True, ListEntryNext := True, FileObject := 0,
               PhysicalAddress := 0x5000, ReferenceCount := 1,
               Flags := PAGE_CACHE_ENTRY_FLAG_PAGE_OWNER\<rparr>,
        1 := blank_entry\<lparr>NodeParent := True, FileObject := 1, PhysicalAddress := 0x5000,
               BackingEntry := Some 0, ReferenceCount := 1\<rparr>),
     Files := (\<lambda>_. blank_file)
       (0 := blank_file\<lparr>Type := IoObjectBlockDevice, FileSize := 0x100000,
               PageCacheTree := [0]\<rparr>,
        1 := blank_file\<lparr>FileSize := 0x1000, PageCacheTree := [1]\<rparr>),
     Lists := (\<lambda>_. [])(IoPageCacheCleanList := [0]),
     IoPageCacheEntryCount := 2,
     IoPageCachePhysicalPageCount := 1\<rparr>"

text \<open>The linked pair after the device's entry has been marked dirty.\<close>

definition linked_pair_dirty :: page_cache where
  "linked_pair_dirty = linked_pair\<lparr>
     Entries := (Entries linked_pair)
       (0 := (Entries linked_pair 0)\<lparr>Flags := PAGE_CACHE_ENTRY_FLAG_PAGE_OWNER OR PAGE_CACHE_ENTRY_FLAG_DIRTY\<rparr>),
     Lists := (\<lambda>_. [])(DirtyPageList 0 := [0]),
     IoPageCacheDirtyPageCount := 1\<rparr>"

text \<open>A file with one dirty, mapped page at offset 0.\<close>

definition one_dirty_page :: page_cache where
  "one_dirty_page = blank_cache\<lparr>
     Entries := (\<lambda>_. blank_entry)
       (0 := blank_entry\<lparr>NodeParent := True, ListEntryNext := True, FileObject := 0,
               PhysicalAddress := 0x5000, VirtualAddress := 0x9000,
               Flags := PAGE_CACHE_ENTRY_FLAG_PAGE_OWNER OR PAGE_CACHE_ENTRY_FLAG_DIRTY
                          OR PAGE_CACHE_ENTRY_FLAG_MAPPED\<rparr>),
     Files := (\<lambda>_. blank_file)
       (0 := blank_file\<lparr>DirtyData := True, FileSize := 0x1000, PageCacheTree := [0]\<rparr>),
     Lists := (\<lambda>_. [])(DirtyPageList 0 := [0]),
     IoPageCacheEntryCount := 1,
     IoPageCachePhysicalPageCount := 1,
     IoPageCacheDirtyPageCount := 1,
     IoPageCacheMappedPageCount := 1,
     IoPageCacheMappedDirtyPageCount := 1\<rparr>"

text \<open>
  A block device entry (0) and a regular file entry (1) for the same content, not yet
  linked: each owns its page, and the device entry has two references.
\<close>

definition unlinked_pair :: page_cache where
  "unlinked_pair = blank_cache\<lparr>
     Entries := (\<lambda>_. blank_entry)
       (0 := blank_entry\<lparr>NodeParent := True, FileObject := 0,
               PhysicalAddress := 0x5000, ReferenceCount := 2,
               Flags := PAGE_CACHE_ENTRY_FLAG_PAGE_OWNER\<rparr>,
        1 := blank_entry\<lparr>NodeParent := True, FileObject := 1, PhysicalAddress := 0x6000,
               ReferenceCount := 1, Flags := PAGE_CACHE_ENTRY_FLAG_PAGE_OWNER\<rparr>),
     Files := (\<lambda>_. blank_file)
       (0 := blank_file\<lparr>Type := IoObjectBlockDevice, FileSize := 0x100000,
               PageCacheTree := [0]\<rparr>,
        1 := blank_file\<lparr>FileSize := 0x1000, PageCacheTree := [1]\<rparr>),
     IoPageCacheEntryCount := 2,
     IoPageCachePhysicalPageCount := 2\<rparr>"

text \<open>
  A machine of 1000 physical pages after initialisation, with 500 pages in the page cache
  and as many free pages as the trigger threshold.
\<close>

definition at_trigger :: page_cache where
  "at_trigger = (snd (IopInitializePageCache True 1000 STATUS_SUCCESS blank_cache))\<lparr>
     IoPageCachePhysicalPageCount := 500, MmFreePhysicalPages := 100\<rparr>"

text \<open>
  A regular file (file object 0) of eight pages of 4096 bytes. Entry i caches the page at
  offset i times 4096; the first argument lists the entries that are in the tree, the
  second those that are dirty. The dirty entries are on the file's dirty list, the others
  on the clean list.
\<close>

definition streak_entry :: "nat list \<Rightarrow> nat \<Rightarrow> PAGE_CACHE_ENTRY" where
  "streak_entry dirty i = blank_entry\<lparr>NodeParent := True, ListEntryNext := True,
     FileObject := 0, Offset := of_nat i * 4096, PhysicalAddress := 0x100000 + of_nat i * 4096,
     Flags := (if i \<in> set dirty
               then PAGE_CACHE_ENTRY_FLAG_PAGE_OWNER OR PAGE_CACHE_ENTRY_FLAG_DIRTY
               else PAGE_CACHE_ENTRY_FLAG_PAGE_OWNER)\<rparr>"

definition streak_file :: "nat list \<Rightarrow> nat list \<Rightarrow> page_cache" where
  "streak_file tree dirty = blank_cache\<lparr>
     Entries := streak_entry dirty,
     Files := (\<lambda>_. blank_file)
       (0 := blank_file\<lparr>DirtyData := True, FileSize := 0x8000, PageCacheTree := tree\<rparr>),
     Lists := (\<lambda>_. [])(DirtyPageList 0 := dirty,
                IoPageCacheCleanList := filter (\<lambda>i. i \<notin> set dirty) tree),
     IoPageCacheEntryCount := of_nat (length tree),
     IoPageCachePhysicalPageCount := of_nat (length tree),
     IoPageCacheDirtyPageCount := of_nat (length dirty)\<rparr>"

text \<open>A flush of the whole of file object 0, without page cap, not synchronized.\<close>

definition flush_all :: flush_args where
  "flush_all = \<lparr>ArgFileObject = 0, ArgOffset = 0, ArgSize = - 1, ArgDataSynchronized = False,
     ArgPageCount = None, PageCacheThread = False, BufferAllocated = True\<rparr>"

text \<open>What a flush that returns leaves behind: the writes logged, the status, the cap.\<close>

definition flush_writes ::
  "nat \<Rightarrow> flush_args \<Rightarrow> page_cache \<Rightarrow> (file_ref \<times> ULONGLONG \<times> UINTN) list option" where
  "flush_writes fuel a s =
     (case IopFlushPageCacheEntries fuel a s of
        Some (Some (Status, PageCount, s1)) \<Rightarrow> Some (WriteLog s1)
      | _ \<Rightarrow> None)"







text \<open>
  The file with one dirty page, its file object not marked dirty, in front of a device
  that fails the next write although it reports every byte as completed.
\<close>

definition failed_full_write :: page_cache where
  "failed_full_write = one_dirty_page\<lparr>
     Files := (\<lambda>_. blank_file)
       (0 := blank_file\<lparr>DirtyData := False, FileSize := 0x1000, PageCacheTree := [0]\<rparr>),
     WriteScript := [(STATUS_OTHER 5, 0x1000)]\<rparr>"

text \<open>The same file in front of a device that completes no byte of the next write.\<close>

definition failed_write :: page_cache where
  "failed_write = one_dirty_page\<lparr>
     Files := (\<lambda>_. blank_file)
       (0 := blank_file\<lparr>DirtyData := False, FileSize := 0x1000, PageCacheTree := [0]\<rparr>),
     WriteScript := [(STATUS_OTHER 5, 0)]\<rparr>"

text \<open>What a flush of a buffer returns: its status, and the dirty flag of a file object.\<close>

definition buffer_status :: "(KSTATUS \<times> page_cache) option \<Rightarrow> KSTATUS option" where
  "buffer_status r = map_option fst r"

definition buffer_file_dirty :: "file_ref \<Rightarrow> (KSTATUS \<times> page_cache) option \<Rightarrow> bool option" where
  "buffer_file_dirty f r = map_option (\<lambda>x. DirtyData (Files (snd x) f)) r"

definition buffer_entry_dirty :: "entry_ref \<Rightarrow> (KSTATUS \<times> page_cache) option \<Rightarrow> bool option" where
  "buffer_entry_dirty e r = map_option (\<lambda>x. entry_dirty (snd x) e) r"

text \<open>
  A cache under memory pressure, with the thresholds that IopInitializePageCache derives
  from 1000 physical pages except for the retreat, which is a parameter as is the count of
  physical pages, and 50 free pages. Entries 1, 2 and 3 of the block device (file object
  0) are clean, mapped page owners on the clean list. Entry 4 of the device is a clean,
  unmapped page owner and entry 5 of a regular file (file object 1) does not own its
  page; both are on the clean unmapped list. Entry 6 of the device owns the page of entry
  5 and carries its reference. The other pages that the counter counts are in use.
\<close>

definition clean_owner :: "nat \<Rightarrow> bool \<Rightarrow> PAGE_CACHE_ENTRY" where
  "clean_owner i mapped = blank_entry\<lparr>NodeParent := True, ListEntryNext := True,
     FileObject := 0, Offset := of_nat i * 0x1000,
     PhysicalAddress := 0x100000 + of_nat i * 0x1000,
     VirtualAddress := (if mapped then 0x900000 + of_nat i * 0x1000 else 0),
     Flags := (if mapped
               then PAGE_CACHE_ENTRY_FLAG_PAGE_OWNER OR PAGE_CACHE_ENTRY_FLAG_MAPPED
               else PAGE_CACHE_ENTRY_FLAG_PAGE_OWNER)\<rparr>"

definition under_pressure :: "UINTN \<Rightarrow> UINTN \<Rightarrow> page_cache" where
  "under_pressure retreat physical = blank_cache\<lparr>
     Entries := (\<lambda>_. blank_entry)
       (1 := clean_owner 1 True, 2 := clean_owner 2 True, 3 := clean_owner 3 True,
        4 := clean_owner 4 False,
        5 := blank_entry\<lparr>NodeParent := True, ListEntryNext := True, FileObject := 1,
               PhysicalAddress := 0x106000, BackingEntry := Some 6\<rparr>,
        6 := (clean_owner 6 False)\<lparr>ListEntryNext := False, ReferenceCount := 1\<rparr>),
     Files := (\<lambda>_. blank_file)
       (0 := blank_file\<lparr>Type := IoObjectBlockDevice, FileSize := 0x100000,
               PageCacheTree := [1, 2, 3, 4, 6]\<rparr>,
        1 := blank_file\<lparr>FileSize := 0x1000, PageCacheTree := [5]\<rparr>),
     Lists := (\<lambda>_. [])(IoPageCacheCleanList := [1, 2, 3],
                          IoPageCacheCleanUnmappedList := [4, 5]),
     IoPageCacheEntryCount := 6,
     IoPageCacheHeadroomPagesRetreat := retreat,
     IoPageCacheHeadroomPagesTrigger := 100,
     IoPageCacheMinimumPagesTarget := 330,
     IoPageCacheMinimumPages := 70,
     IoPageCachePhysicalPageCount := physical,
     IoPageCacheMappedPageCount := 3,
     MmFreePhysicalPages := 50\<rparr>"

text \<open>What a trim with fuel for ten passes of each loop leaves behind.\<close>

definition trimmed :: "UINTN \<Rightarrow> UINTN \<Rightarrow> page_cache" where
  "trimmed retreat physical =
     (case IopTrimPageCache 10 False (under_pressure retreat physical) of
        Some (Some s) \<Rightarrow> s
      | _ \<Rightarrow> under_pressure retreat physical)"

section \<open>Properties\<close>

subsection \<open>Flag words\<close>


lemma flag_or_self: "b \<noteq> 0 \<Longrightarrow> flag_set (x OR b) b"
  by (simp add: flag_set_def bit.conj_disj_distrib2)

lemma flag_and_not_other: "b AND c = 0 \<Longrightarrow> flag_set (x AND NOT b) c = flag_set x c"
proof -
  assume h: "b AND c = 0"
  have "(x AND NOT b) AND c = x AND c"
  proof (rule bit_eqI)
    fix n
    have "\<not> (bit b n \<and> bit c n)"
      using h by (metis bit_and_iff bit_0_eq bot_apply bot_bool_def)
    then show "bit ((x AND NOT b) AND c) n = bit (x AND c) n"
      by (auto simp: bit_and_iff bit_not_iff dest: bit_imp_possible_bit)
  qed
  then show ?thesis by (simp add: flag_set_def)
qed

lemma flag_or_other: "b AND c = 0 \<Longrightarrow> flag_set (x OR b) c = flag_set x c"
proof -
  assume h: "b AND c = 0"
  have "(x OR b) AND c = x AND c"
    by (simp add: bit.conj_disj_distrib2 h)
  then show ?thesis by (simp add: flag_set_def)
qed

lemmas flag_defs = PAGE_CACHE_ENTRY_FLAG_DIRTY_def PAGE_CACHE_ENTRY_FLAG_PAGE_OWNER_def
  PAGE_CACHE_ENTRY_FLAG_MAPPED_def

lemmas prim_defs = entry_update_def file_update_def LIST_REMOVE_def INSERT_BEFORE_def
  IopMarkFileObjectDirty_def

lemmas test_defs = blank_entry_def blank_file_def blank_cache_def

subsection \<open>Virtual addresses\<close>

text \<open>
  C10. IoSetPageCacheEntryVirtualAddress returns FALSE and leaves the whole state as it
  was (the entry's flags and virtual address, the owner entry and the mapped page counters
  among the rest) whenever the entry already stores a virtual address, whatever address
  is offered, or virtual addresses are disabled. The atomic OR of the MAPPED flag lies
  after that return, so it is reached only with a NULL stored address.
\<close>

theorem set_va_refused:
  "VirtualAddress (Entries s e) \<noteq> 0 \<or> IoPageCacheDisableVirtualAddresses s \<Longrightarrow>
   IoSetPageCacheEntryVirtualAddress e va s = (False, s)"
  by (auto simp: IoSetPageCacheEntryVirtualAddress_def)

theorem set_va_refused_witness:
  "IoSetPageCacheEntryVirtualAddress 1 0x7000
     (entry_update 1 (\<lambda>x. x\<lparr>VirtualAddress := 0x3000\<rparr>) linked_pair)
   = (False, entry_update 1 (\<lambda>x. x\<lparr>VirtualAddress := 0x3000\<rparr>) linked_pair)
   \<and> IoSetPageCacheEntryVirtualAddress 1 0x7000
        (linked_pair\<lparr>IoPageCacheDisableVirtualAddresses := True\<rparr>)
      = (False, linked_pair\<lparr>IoPageCacheDisableVirtualAddresses := True\<rparr>)"
  using set_va_refused [of "entry_update 1 (\<lambda>x. x\<lparr>VirtualAddress := 0x3000\<rparr>) linked_pair"
          1 "0x7000"]
        set_va_refused [of "linked_pair\<lparr>IoPageCacheDisableVirtualAddresses := True\<rparr>"
          1 "0x7000"]
  by (simp add: entry_update_def linked_pair_def test_defs)

subsection \<open>Dirty tracking\<close>

lemma mark_clean_clean:
  "\<not> flag_set (Flags (Entries s e)) PAGE_CACHE_ENTRY_FLAG_DIRTY \<Longrightarrow>
   IopMarkPageCacheEntryClean e m s = (False, s)"
  by (simp add: IopMarkPageCacheEntryClean_def)

lemma mark_clean_dirty:
  "flag_set (Flags (Entries s e)) PAGE_CACHE_ENTRY_FLAG_DIRTY \<Longrightarrow>
   IopMarkPageCacheEntryClean e m s =
     (True, s\<lparr>Entries := (Entries s)(e := (Entries s e)\<lparr>
                  ListEntryNext := m,
                  Flags := Flags (Entries s e) AND NOT PAGE_CACHE_ENTRY_FLAG_DIRTY\<rparr>),
              Lists := (\<lambda>h. removeAll e (Lists s h) @
                         (if m \<and> h = IoPageCacheCleanList then [e] else [])),
              IoPageCacheDirtyPageCount := IoPageCacheDirtyPageCount s - 1,
              IoPageCacheMappedDirtyPageCount :=
                (if flag_set (Flags (Entries s e)) PAGE_CACHE_ENTRY_FLAG_MAPPED
                 then IoPageCacheMappedDirtyPageCount s - 1
                 else IoPageCacheMappedDirtyPageCount s)\<rparr>)"
  by (simp add: IopMarkPageCacheEntryClean_def Let_def prim_defs fun_eq_iff)


lemma iop_mark_dirty_owner_dirty:
  "flag_set (Flags (Entries s B)) PAGE_CACHE_ENTRY_FLAG_PAGE_OWNER \<Longrightarrow>
   flag_set (Flags (Entries s B)) PAGE_CACHE_ENTRY_FLAG_DIRTY \<Longrightarrow>
   IopMarkPageCacheEntryDirty B s = Some (False, s)"
  by (simp add: IopMarkPageCacheEntryDirty_def)

lemma iop_mark_dirty_owner_clean:
  "flag_set (Flags (Entries s B)) PAGE_CACHE_ENTRY_FLAG_PAGE_OWNER \<Longrightarrow>
   \<not> flag_set (Flags (Entries s B)) PAGE_CACHE_ENTRY_FLAG_DIRTY \<Longrightarrow>
   IopMarkPageCacheEntryDirty B s =
     Some (True, s\<lparr>Entries := (Entries s)(B := (Entries s B)\<lparr>
                  ListEntryNext := True,
                  Flags := Flags (Entries s B) OR PAGE_CACHE_ENTRY_FLAG_DIRTY\<rparr>),
              Files := (Files s)(FileObject (Entries s B) :=
                  (Files s (FileObject (Entries s B)))\<lparr>DirtyData := True\<rparr>),
              Lists := (\<lambda>h. (if ListEntryNext (Entries s B)
                               then removeAll B (Lists s h) else Lists s h) @
                         (if h = DirtyPageList (FileObject (Entries s B)) then [B] else [])),
              IoPageCacheDirtyPageCount := IoPageCacheDirtyPageCount s + 1,
              IoPageCacheMappedDirtyPageCount :=
                (if flag_set (Flags (Entries s B)) PAGE_CACHE_ENTRY_FLAG_MAPPED
                 then IoPageCacheMappedDirtyPageCount s + 1
                 else IoPageCacheMappedDirtyPageCount s)\<rparr>)"
  by (simp add: IopMarkPageCacheEntryDirty_def Let_def prim_defs fun_eq_iff)

lemma io_mark_dirty_nonowner:
  "\<not> flag_set (Flags (Entries s E)) PAGE_CACHE_ENTRY_FLAG_PAGE_OWNER \<Longrightarrow>
   BackingEntry (Entries s E) = Some B \<Longrightarrow>
   flag_set (Flags (Entries s B)) PAGE_CACHE_ENTRY_FLAG_PAGE_OWNER \<Longrightarrow>
   IoMarkPageCacheEntryDirty E s = IopMarkPageCacheEntryDirty B s
   \<and> IopMarkPageCacheEntryDirty E s = IopMarkPageCacheEntryDirty B s"
  by (simp add: IoMarkPageCacheEntryDirty_def IopMarkPageCacheEntryDirty_def)

text \<open>
  C1. Let E be an entry that is not a page owner, backed by the owner B, in a state where
  B's list entry is NULL only if B is on no list. Both IoMarkPageCacheEntryDirty and
  IopMarkPageCacheEntryDirty, called on E, leave E's flags alone. If B is clean they set
  DIRTY on B, add one to the dirty page count (and one to the mapped dirty count if B was
  MAPPED), leave B on neither global clean list, make B the tail of the dirty list of
  B's file object, mark that file object dirty and return TRUE. If B is already dirty
  they return FALSE and change nothing.
\<close>

theorem mark_dirty_through_backing:
  assumes nonowner: "\<not> flag_set (Flags (Entries s E)) PAGE_CACHE_ENTRY_FLAG_PAGE_OWNER"
      and backing: "BackingEntry (Entries s E) = Some B"
      and owner: "flag_set (Flags (Entries s B)) PAGE_CACHE_ENTRY_FLAG_PAGE_OWNER"
      and onlist: "\<not> ListEntryNext (Entries s B) \<longrightarrow> (\<forall>h. B \<notin> set (Lists s h))"
  shows "\<exists>r s'. IoMarkPageCacheEntryDirty E s = Some (r, s')
     \<and> IopMarkPageCacheEntryDirty E s = Some (r, s')
     \<and> Flags (Entries s' E) = Flags (Entries s E)
     \<and> (flag_set (Flags (Entries s B)) PAGE_CACHE_ENTRY_FLAG_DIRTY \<longrightarrow> \<not> r \<and> s' = s)
     \<and> (\<not> flag_set (Flags (Entries s B)) PAGE_CACHE_ENTRY_FLAG_DIRTY \<longrightarrow> r
          \<and> Flags (Entries s' B) = Flags (Entries s B) OR PAGE_CACHE_ENTRY_FLAG_DIRTY
          \<and> IoPageCacheDirtyPageCount s' = IoPageCacheDirtyPageCount s + 1
          \<and> IoPageCacheMappedDirtyPageCount s' =
                (if flag_set (Flags (Entries s B)) PAGE_CACHE_ENTRY_FLAG_MAPPED
                 then IoPageCacheMappedDirtyPageCount s + 1
                 else IoPageCacheMappedDirtyPageCount s)
          \<and> B \<notin> set (Lists s' IoPageCacheCleanList)
          \<and> B \<notin> set (Lists s' IoPageCacheCleanUnmappedList)
          \<and> Lists s' (DirtyPageList (FileObject (Entries s B))) =
                removeAll B (Lists s (DirtyPageList (FileObject (Entries s B)))) @ [B]
          \<and> DirtyData (Files s' (FileObject (Entries s B))))"
proof -
  have ne: "E \<noteq> B" using nonowner owner by auto
  note red = io_mark_dirty_nonowner [OF nonowner backing owner]
  show ?thesis
  proof (cases "flag_set (Flags (Entries s B)) PAGE_CACHE_ENTRY_FLAG_DIRTY")
    case True
    show ?thesis
      using True by (auto simp: red iop_mark_dirty_owner_dirty [OF owner True])
  next
    case False
    have rm: "\<And>h. \<not> ListEntryNext (Entries s B) \<Longrightarrow> removeAll B (Lists s h) = Lists s h"
      using onlist by simp
    show ?thesis
      using False ne onlist
      by (auto simp: red iop_mark_dirty_owner_clean [OF owner False] rm)
  qed
qed

theorem mark_dirty_through_backing_witness:
  "(\<exists>s'. IoMarkPageCacheEntryDirty 1 linked_pair = Some (True, s')
     \<and> IopMarkPageCacheEntryDirty 1 linked_pair = Some (True, s')
     \<and> \<not> flag_set (Flags (Entries s' 1)) PAGE_CACHE_ENTRY_FLAG_DIRTY
     \<and> flag_set (Flags (Entries s' 0)) PAGE_CACHE_ENTRY_FLAG_DIRTY
     \<and> IoPageCacheDirtyPageCount s' = 1
     \<and> 0 \<notin> set (Lists s' IoPageCacheCleanList)
     \<and> Lists s' (DirtyPageList 0) = [0]
     \<and> DirtyData (Files s' 0))
   \<and> IoMarkPageCacheEntryDirty 1 linked_pair_dirty = Some (False, linked_pair_dirty)"
proof -
  have a: "\<not> flag_set (Flags (Entries linked_pair 1)) PAGE_CACHE_ENTRY_FLAG_PAGE_OWNER"
    and b: "BackingEntry (Entries linked_pair 1) = Some 0"
    and c: "flag_set (Flags (Entries linked_pair 0)) PAGE_CACHE_ENTRY_FLAG_PAGE_OWNER"
    and d: "\<not> ListEntryNext (Entries linked_pair 0) \<longrightarrow> (\<forall>h. 0 \<notin> set (Lists linked_pair h))"
    and e: "\<not> flag_set (Flags (Entries linked_pair 0)) PAGE_CACHE_ENTRY_FLAG_DIRTY"
    by (simp_all add: linked_pair_def test_defs flag_set_def flag_defs)
  have f: "FileObject (Entries linked_pair 0) = 0"
    "Lists linked_pair (DirtyPageList 0) = []"
    "Lists linked_pair IoPageCacheCleanList = [0]"
    "IoPageCacheDirtyPageCount linked_pair = 0"
    "Flags (Entries linked_pair 1) = 0"
    "Flags (Entries linked_pair 0) = 2"
    by (simp_all add: linked_pair_def test_defs flag_defs)
  have a': "\<not> flag_set (Flags (Entries linked_pair_dirty 1)) PAGE_CACHE_ENTRY_FLAG_PAGE_OWNER"
    and b': "BackingEntry (Entries linked_pair_dirty 1) = Some 0"
    and c': "flag_set (Flags (Entries linked_pair_dirty 0)) PAGE_CACHE_ENTRY_FLAG_PAGE_OWNER"
    and d': "\<not> ListEntryNext (Entries linked_pair_dirty 0) \<longrightarrow> (\<forall>h. 0 \<notin> set (Lists linked_pair_dirty h))"
    and e': "flag_set (Flags (Entries linked_pair_dirty 0)) PAGE_CACHE_ENTRY_FLAG_DIRTY"
    by (simp_all add: linked_pair_dirty_def linked_pair_def test_defs flag_set_def flag_defs)
  from mark_dirty_through_backing [OF a b c d] e f
  have 1: "(\<exists>s'. IoMarkPageCacheEntryDirty 1 linked_pair = Some (True, s')
     \<and> IopMarkPageCacheEntryDirty 1 linked_pair = Some (True, s')
     \<and> \<not> flag_set (Flags (Entries s' 1)) PAGE_CACHE_ENTRY_FLAG_DIRTY
     \<and> flag_set (Flags (Entries s' 0)) PAGE_CACHE_ENTRY_FLAG_DIRTY
     \<and> IoPageCacheDirtyPageCount s' = 1
     \<and> 0 \<notin> set (Lists s' IoPageCacheCleanList)
     \<and> Lists s' (DirtyPageList 0) = [0]
     \<and> DirtyData (Files s' 0))"
    by (auto simp: flag_set_def flag_defs)
  from mark_dirty_through_backing [OF a' b' c' d'] e'
  have 2: "IoMarkPageCacheEntryDirty 1 linked_pair_dirty = Some (False, linked_pair_dirty)"
    by auto
  from 1 2 show ?thesis by blast
qed


subsection \<open>Initialisation and the physical pressure predicate\<close>

lemmas percent_defs = PAGE_CACHE_MEMORY_HEADROOM_PERCENT_TRIGGER_def
  PAGE_CACHE_MEMORY_HEADROOM_PERCENT_RETREAT_def PAGE_CACHE_MINIMUM_MEMORY_TARGET_PERCENT_def
  PAGE_CACHE_MINIMUM_MEMORY_PERCENT_def PAGE_CACHE_LOW_MEMORY_CLEAN_PAGE_MAXIMUM_def
  PAGE_CACHE_LOW_MEMORY_CLEAN_PAGE_MINIMUM_PERCENTAGE_def

lemma percent_of_pages_word: "percent_of_pages T p = (T * p) div 100"
  by (simp add: percent_of_pages_def Let_def MAX_UINTN_def not_less [symmetric] word_n1_ge leD)

lemma percent_of_pages_nat:
  assumes "unat T * unat p < 2 ^ 64"
  shows "unat (percent_of_pages T p) = (unat T * unat p) div 100"
proof -
  have "unat (T * p) = unat T * unat p"
    using assms by (simp add: unat_mult_lem [THEN iffD1])
  then show ?thesis
    by (simp add: percent_of_pages_word unat_div)
qed

lemma init_fields:
  "IoPageCacheHeadroomPagesTrigger (snd (IopInitializePageCache True T st s)) = percent_of_pages T 10"
  "IoPageCacheHeadroomPagesRetreat (snd (IopInitializePageCache True T st s)) = percent_of_pages T 15"
  "IoPageCacheMinimumPages (snd (IopInitializePageCache True T st s)) = percent_of_pages T 7"
  "IoPageCacheMinimumPagesTarget (snd (IopInitializePageCache True T st s)) = percent_of_pages T 33"
  by (simp_all add: IopInitializePageCache_def Let_def percent_defs)

text \<open>
  C6, as the code has it. IopIsPageCacheTooBig returns TRUE exactly when the physical page
  count is above the minimum and the free physical pages are at or below the trigger (not
  strictly below it). IopInitializePageCache computes the thresholds from the total
  physical pages: where 33 times that total fits a UINTN, the trigger is 10 percent of
  it, the retreat 15, the minimum 7 and the minimum target 33, each rounded down.
\<close>

theorem too_big_iff:
  "fst (IopIsPageCacheTooBig s) =
     (IoPageCachePhysicalPageCount s > IoPageCacheMinimumPages s
      \<and> MmFreePhysicalPages s \<le> IoPageCacheHeadroomPagesTrigger s)
   \<and> (unat T * 33 < 2 ^ 64 \<longrightarrow>
       (let s' = snd (IopInitializePageCache True T st s0) in
          unat (IoPageCacheHeadroomPagesTrigger s') = unat T * 10 div 100
        \<and> unat (IoPageCacheHeadroomPagesRetreat s') = unat T * 15 div 100
        \<and> unat (IoPageCacheMinimumPages s') = unat T * 7 div 100
        \<and> unat (IoPageCacheMinimumPagesTarget s') = unat T * 33 div 100))"
proof -
  have a: "fst (IopIsPageCacheTooBig s) =
     (IoPageCachePhysicalPageCount s > IoPageCacheMinimumPages s
      \<and> MmFreePhysicalPages s \<le> IoPageCacheHeadroomPagesTrigger s)"
    by (auto simp: IopIsPageCacheTooBig_def Let_def)
  have b: "unat T * 33 < 2 ^ 64 \<Longrightarrow> unat T * unat (p::64 word) < 2 ^ 64" if "unat p \<le> 33" for p
  proof -
    assume h: "unat T * 33 < 2 ^ 64"
    have "unat T * unat p \<le> unat T * 33" using that by simp
    with h show ?thesis by linarith
  qed
  show ?thesis
    using a b [of 10] b [of 15] b [of 7] b [of 33]
    by (simp add: Let_def init_fields percent_of_pages_nat)
qed

theorem too_big_iff_witness:
  "fst (IopIsPageCacheTooBig at_trigger)
   \<and> IoPageCacheHeadroomPagesTrigger at_trigger = 100
   \<and> IoPageCacheHeadroomPagesRetreat at_trigger = 150
   \<and> IoPageCacheMinimumPages at_trigger = 70
   \<and> IoPageCacheMinimumPagesTarget at_trigger = 330"
proof -
  let ?i = "snd (IopInitializePageCache True 1000 STATUS_SUCCESS blank_cache)"
  have u: "\<And>(x::64 word) n. unat x = n \<Longrightarrow> n < 2 ^ 64 \<Longrightarrow> x = of_nat n"
    by auto
  from too_big_iff [of at_trigger 1000 STATUS_SUCCESS blank_cache]
  have f: "fst (IopIsPageCacheTooBig at_trigger) =
             (IoPageCachePhysicalPageCount at_trigger > IoPageCacheMinimumPages at_trigger
              \<and> MmFreePhysicalPages at_trigger \<le> IoPageCacheHeadroomPagesTrigger at_trigger)"
    and "unat (IoPageCacheHeadroomPagesTrigger ?i) = 100"
    and "unat (IoPageCacheHeadroomPagesRetreat ?i) = 150"
    and "unat (IoPageCacheMinimumPages ?i) = 70"
    and "unat (IoPageCacheMinimumPagesTarget ?i) = 330"
    by (simp_all add: Let_def)
  then have v: "IoPageCacheHeadroomPagesTrigger ?i = 100"
    "IoPageCacheHeadroomPagesRetreat ?i = 150"
    "IoPageCacheMinimumPages ?i = 70"
    "IoPageCacheMinimumPagesTarget ?i = 330"
    by (auto dest!: u)
  show ?thesis
    using f v by (simp add: at_trigger_def)
qed

text \<open>
  C6 as stated fails: with 1000 physical pages the trigger is 100, and with exactly 100
  free pages and 500 pages in the cache the predicate is TRUE although the free pages
  are not below the trigger.
\<close>

theorem too_big_strict_counterexample:
  "\<not> (fst (IopIsPageCacheTooBig at_trigger) =
        (IoPageCachePhysicalPageCount at_trigger > IoPageCacheMinimumPages at_trigger
         \<and> MmFreePhysicalPages at_trigger < IoPageCacheHeadroomPagesTrigger at_trigger))"
  by (simp add: at_trigger_def IopIsPageCacheTooBig_def IopInitializePageCache_def Let_def
        percent_of_pages_word percent_defs test_defs)

subsection \<open>Linking\<close>

text \<open>
  C8. Let the lower entry belong to a block device and the upper entry to a cacheable
  file kind. If the upper entry's backing entry is already the lower entry,
  IopLinkPageCacheEntries returns TRUE and the state is unchanged: no flag, address,
  reference count or counter moves. If they are not linked and the lower entry's
  reference count is not 1, it returns FALSE and the state is unchanged, so both entries
  keep their physical pages.
\<close>

theorem link_entries_idempotent:
  assumes "Type (Files s (FileObject (Entries s lower))) = IoObjectBlockDevice"
      and "IO_IS_CACHEABLE_FILE (Type (Files s (FileObject (Entries s upper))))"
  shows "(BackingEntry (Entries s upper) = Some lower
            \<longrightarrow> IopLinkPageCacheEntries lower upper s = (True, s))
       \<and> (BackingEntry (Entries s upper) \<noteq> Some lower
            \<and> ReferenceCount (Entries s lower) \<noteq> 1
            \<longrightarrow> IopLinkPageCacheEntries lower upper s = (False, s))"
  using assms
  by (auto simp: IopLinkPageCacheEntries_def Let_def IO_IS_CACHEABLE_FILE_def)

theorem link_entries_idempotent_witness:
  "IopLinkPageCacheEntries 0 1 linked_pair = (True, linked_pair)
   \<and> IopLinkPageCacheEntries 0 1 unlinked_pair = (False, unlinked_pair)
   \<and> PhysicalAddress (Entries unlinked_pair 0) = 0x5000
   \<and> PhysicalAddress (Entries unlinked_pair 1) = 0x6000"
proof -
  have a: "Type (Files linked_pair (FileObject (Entries linked_pair 0))) = IoObjectBlockDevice"
    "IO_IS_CACHEABLE_FILE (Type (Files linked_pair (FileObject (Entries linked_pair 1))))"
    "BackingEntry (Entries linked_pair 1) = Some 0"
    by (simp_all add: linked_pair_def test_defs IO_IS_CACHEABLE_FILE_def)
  have b: "Type (Files unlinked_pair (FileObject (Entries unlinked_pair 0))) = IoObjectBlockDevice"
    "IO_IS_CACHEABLE_FILE (Type (Files unlinked_pair (FileObject (Entries unlinked_pair 1))))"
    "BackingEntry (Entries unlinked_pair 1) \<noteq> Some 0"
    "ReferenceCount (Entries unlinked_pair 0) \<noteq> 1"
    "PhysicalAddress (Entries unlinked_pair 0) = 0x5000"
    "PhysicalAddress (Entries unlinked_pair 1) = 0x6000"
    by (simp_all add: unlinked_pair_def test_defs IO_IS_CACHEABLE_FILE_def)
  from link_entries_idempotent [OF a(1,2)] link_entries_idempotent [OF b(1,2)] a(3) b(3-)
  show ?thesis by simp
qed

subsection \<open>The flush loop\<close>






text \<open>
  The clean streak is reset by the dirty entry that ends a buffer before the size of that
  buffer is cut by the streak: with eight cached pages of which 0, 2 ps and 3 ps are
  dirty, the four clean pages that trail the last dirty one are written as well.
\<close>

lemma streak_reset_before_trim:
  "flush_writes 30 flush_all (streak_file [0..<8] [0, 2, 3]) = Some [(0, 0, 0x8000)]"
  by code_simp








subsection \<open>Errors of a flush\<close>

lemma same_device_refl [simp]: "same_device s s"
  by (simp add: same_device_def)

lemma same_device_trans: "same_device s s1 \<Longrightarrow> same_device s1 s2 \<Longrightarrow> same_device s s2"
  by (simp add: same_device_def)

lemma same_device_mark_file:
  "same_device s b \<Longrightarrow> same_device s (IopMarkFileObjectDirty f b)"
  by (simp add: same_device_def prim_defs)

lemma mark_clean_same_device:
  "same_device s (snd (IopMarkPageCacheEntryClean e m s))"
  by (cases "flag_set (Flags (Entries s e)) PAGE_CACHE_ENTRY_FLAG_DIRTY")
     (simp_all add: mark_clean_dirty mark_clean_clean same_device_def)

lemma mark_dirty_same_device:
  "IopMarkPageCacheEntryDirty e s = Some (r, s') \<Longrightarrow> same_device s s'"
  by (auto simp: IopMarkPageCacheEntryDirty_def Let_def prim_defs same_device_def
           split: option.splits if_splits)

lemma flush_mark_clean_same_device:
  "flush_mark_clean buf ps sz ce cl off s = Some (ce', cl', off', s') \<Longrightarrow> same_device s s'"
proof (induction buf arbitrary: ce cl off s)
  case Nil
  then show ?case by (simp split: if_splits)
next
  case (Cons e rest)
  show ?case
  proof (cases "off < sz \<and> NodeParent (Entries s e)")
    case True
    obtain r s1 where m: "IopMarkPageCacheEntryClean e True s = (r, s1)"
      by (cases "IopMarkPageCacheEntryClean e True s")
    have "same_device s s1" using mark_clean_same_device [of s e True] m by simp
    moreover have "same_device s1 s'"
      using Cons.prems True m Cons.IH by simp
    ultimately show ?thesis by (rule same_device_trans)
  next
    case False
    then show ?thesis using Cons.prems by (auto split: if_splits)
  qed
qed

lemma flush_mark_dirty_same_device:
  "flush_mark_dirty buf ps btw ce off s = Some (ce', s') \<Longrightarrow> same_device s s'"
proof (induction buf arbitrary: ce off s)
  case Nil
  then show ?case by (simp split: if_splits)
next
  case (Cons e rest)
  show ?case
  proof (cases "off < btw")
    case True
    with Cons.prems obtain r s1 where m: "IopMarkPageCacheEntryDirty e s = Some (r, s1)"
      and rec: "flush_mark_dirty rest ps btw e (off + ps) s1 = Some (ce', s')"
      by (auto split: option.splits)
    from mark_dirty_same_device [OF m] Cons.IH [OF rec] show ?thesis
      by (rule same_device_trans)
  next
    case False
    then show ?thesis using Cons.prems by simp
  qed
qed

lemma flush_buffer_write_outcome:
  assumes "flush_buffer_write buf f off n ce s1 = Some (Status, s')"
  shows "WriteLog s' = WriteLog s1 @ [(f, off, n)]
       \<and> WriteScript s' = tl (WriteScript s1)
       \<and> Status = write_outcome (write_answer (WriteScript s1) n) n
       \<and> SynchronizeStatus s' = SynchronizeStatus s1 \<and> MmPageShift s' = MmPageShift s1
       \<and> (\<forall>f. Type (Files s' f) = Type (Files s1 f))"
proof -
  obtain ws bc s2 where w: "IopPerformNonCachedWrite f off n s1 = (ws, bc, s2)"
    by (cases "IopPerformNonCachedWrite f off n s1") auto
  have w2: "WriteLog s2 = WriteLog s1 @ [(f, off, n)]" "WriteScript s2 = tl (WriteScript s1)"
    "(ws, bc) = write_answer (WriteScript s1) n"
    "SynchronizeStatus s2 = SynchronizeStatus s1" "MmPageShift s2 = MmPageShift s1"
    "\<forall>f. Type (Files s2 f) = Type (Files s1 f)"
    using w
    by (auto simp: IopPerformNonCachedWrite_def Let_def write_answer_def split: list.splits)
  have st: "Status = write_outcome (ws, bc) n"
    using assms w
    by (auto simp: flush_buffer_write_def Let_def write_outcome_def KSUCCESS_def
             split: if_splits option.splits)
  have "same_device s2 s'"
    using assms w
    by (auto simp: flush_buffer_write_def Let_def KSUCCESS_def same_device_mark_file
             split: if_splits option.splits dest!: flush_mark_dirty_same_device)
  then show ?thesis
    using w2 st by (auto simp: same_device_def)
qed






lemma flush_progress_locals:
  "flush_progress st s st1 s1 r \<Longrightarrow> TotalStatus st2 = TotalStatus st1
   \<Longrightarrow> flush_progress st s st2 s1 r"
  by (simp add: flush_progress_def)












subsection \<open>Flushing a buffer\<close>

lemma flags_disjoint:
  "PAGE_CACHE_ENTRY_FLAG_DIRTY AND PAGE_CACHE_ENTRY_FLAG_PAGE_OWNER = 0"
  "PAGE_CACHE_ENTRY_FLAG_DIRTY AND PAGE_CACHE_ENTRY_FLAG_MAPPED = 0"
  "PAGE_CACHE_ENTRY_FLAG_DIRTY \<noteq> 0"
  by (simp_all add: flag_defs)

lemma dirty_or_flags:
  "flag_set (x OR PAGE_CACHE_ENTRY_FLAG_DIRTY) PAGE_CACHE_ENTRY_FLAG_DIRTY"
  "flag_set (x OR PAGE_CACHE_ENTRY_FLAG_DIRTY) PAGE_CACHE_ENTRY_FLAG_PAGE_OWNER
     = flag_set x PAGE_CACHE_ENTRY_FLAG_PAGE_OWNER"
  using flag_or_self [OF flags_disjoint(3)] flag_or_other [OF flags_disjoint(1)]
  by simp_all

lemma mark_clean_frame:
  "owner_entry (snd (IopMarkPageCacheEntryClean e m s)) x = owner_entry s x
   \<and> FileObject (Entries (snd (IopMarkPageCacheEntryClean e m s)) x) = FileObject (Entries s x)"
  by (cases "flag_set (Flags (Entries s e)) PAGE_CACHE_ENTRY_FLAG_DIRTY")
     (simp_all add: mark_clean_dirty mark_clean_clean owner_entry_def
        flag_and_not_other [OF flags_disjoint(1)])

lemma iop_mark_dirty_explicit:
  "owner_entry s e = Some d \<Longrightarrow> \<not> entry_dirty s d \<Longrightarrow>
   IopMarkPageCacheEntryDirty e s =
     Some (True, s\<lparr>Entries := (Entries s)(d := (Entries s d)\<lparr>
                  ListEntryNext := True,
                  Flags := Flags (Entries s d) OR PAGE_CACHE_ENTRY_FLAG_DIRTY\<rparr>),
              Files := (Files s)(FileObject (Entries s d) :=
                  (Files s (FileObject (Entries s d)))\<lparr>DirtyData := True\<rparr>),
              Lists := (\<lambda>h. (if ListEntryNext (Entries s d)
                               then removeAll d (Lists s h) else Lists s h) @
                         (if h = DirtyPageList (FileObject (Entries s d)) then [d] else [])),
              IoPageCacheDirtyPageCount := IoPageCacheDirtyPageCount s + 1,
              IoPageCacheMappedDirtyPageCount :=
                (if flag_set (Flags (Entries s d)) PAGE_CACHE_ENTRY_FLAG_MAPPED
                 then IoPageCacheMappedDirtyPageCount s + 1
                 else IoPageCacheMappedDirtyPageCount s)\<rparr>)"
  by (simp add: IopMarkPageCacheEntryDirty_def owner_entry_def entry_dirty_def Let_def
        prim_defs fun_eq_iff)

lemma iop_mark_dirty_already:
  "owner_entry s e = Some d \<Longrightarrow> entry_dirty s d \<Longrightarrow>
   IopMarkPageCacheEntryDirty e s = Some (False, s)"
  by (simp add: IopMarkPageCacheEntryDirty_def owner_entry_def entry_dirty_def)

lemma iop_mark_dirty_null:
  "owner_entry s e = None \<Longrightarrow> IopMarkPageCacheEntryDirty e s = None"
  by (simp add: IopMarkPageCacheEntryDirty_def owner_entry_def)

lemma mark_dirty_frame:
  assumes "IopMarkPageCacheEntryDirty e s = Some (r, s')"
  shows "(\<forall>x. owner_entry s' x = owner_entry s x)
       \<and> (\<forall>x. FileObject (Entries s' x) = FileObject (Entries s x))
       \<and> (\<forall>x. entry_dirty s x \<longrightarrow> entry_dirty s' x)
       \<and> (\<exists>d. owner_entry s e = Some d \<and> entry_dirty s' d)"
proof -
  from assms obtain d where d: "owner_entry s e = Some d"
    by (cases "owner_entry s e") (auto simp: iop_mark_dirty_null)
  show ?thesis
  proof (cases "entry_dirty s d")
    case True
    with assms d have "s' = s"
      by (simp add: iop_mark_dirty_already)
    with True d show ?thesis by auto
  next
    case False
    from assms have s': "s' = snd (the (IopMarkPageCacheEntryDirty e s))"
      by simp
    have ent: "\<And>x. Flags (Entries s' x) =
                 (if x = d then Flags (Entries s d) OR PAGE_CACHE_ENTRY_FLAG_DIRTY
                  else Flags (Entries s x))"
      "\<And>x. BackingEntry (Entries s' x) = BackingEntry (Entries s x)"
      "\<And>x. FileObject (Entries s' x) = FileObject (Entries s x)"
      unfolding s' iop_mark_dirty_explicit [OF d False] by simp_all
    show ?thesis
      using d by (auto simp: owner_entry_def entry_dirty_def dirty_or_flags ent)
  qed
qed

lemma flush_mark_clean_frame:
  "flush_mark_clean buf ps sz ce cl off s = Some (ce', cl', off', s') \<Longrightarrow>
   (\<forall>x. owner_entry s' x = owner_entry s x)
   \<and> (\<forall>x. FileObject (Entries s' x) = FileObject (Entries s x))
   \<and> (ce' = ce \<or> ce' \<in> set buf)"
proof (induction buf arbitrary: ce cl off s)
  case Nil
  then show ?case by (simp split: if_splits)
next
  case (Cons e rest)
  show ?case
  proof (cases "off < sz \<and> NodeParent (Entries s e)")
    case True
    obtain r s1 where m: "IopMarkPageCacheEntryClean e True s = (r, s1)"
      by (cases "IopMarkPageCacheEntryClean e True s")
    have f1: "\<forall>x. owner_entry s1 x = owner_entry s x"
      "\<forall>x. FileObject (Entries s1 x) = FileObject (Entries s x)"
      using mark_clean_frame [of e True s] m by simp_all
    have rec: "flush_mark_clean rest ps sz e (if r then False else cl) (off + ps) s1
                 = Some (ce', cl', off', s')"
      using Cons.prems True m by simp
    from Cons.IH [OF rec] f1 show ?thesis by auto
  next
    case False
    then show ?thesis using Cons.prems by (auto split: if_splits)
  qed
qed

lemma flush_mark_dirty_frame:
  "flush_mark_dirty buf ps n ce off s = Some (ce', s') \<Longrightarrow>
   (\<forall>x. owner_entry s' x = owner_entry s x)
   \<and> (\<forall>x. FileObject (Entries s' x) = FileObject (Entries s x))
   \<and> (\<forall>x. entry_dirty s x \<longrightarrow> entry_dirty s' x)
   \<and> (ce' = ce \<or> ce' \<in> set buf)"
proof (induction buf arbitrary: ce off s)
  case Nil
  then show ?case by (simp split: if_splits)
next
  case (Cons e rest)
  show ?case
  proof (cases "off < n")
    case True
    with Cons.prems obtain r s1 where m: "IopMarkPageCacheEntryDirty e s = Some (r, s1)"
      and rec: "flush_mark_dirty rest ps n e (off + ps) s1 = Some (ce', s')"
      by (auto split: option.splits)
    from mark_dirty_frame [OF m] Cons.IH [OF rec] show ?thesis by auto
  next
    case False
    then show ?thesis using Cons.prems by simp
  qed
qed

lemma flush_mark_dirty_marks:
  "flush_mark_dirty buf ps n ce off s = Some (ce', s') \<Longrightarrow>
   j < length buf \<Longrightarrow> unat off + j * unat ps < unat n \<Longrightarrow>
   \<exists>d. owner_entry s (buf ! j) = Some d \<and> entry_dirty s' d"
proof (induction buf arbitrary: ce off s j)
  case Nil
  then show ?case by simp
next
  case (Cons e rest)
  have lt: "off < n" using Cons.prems(3) by (simp add: word_less_nat_alt)
  with Cons.prems(1) obtain r s1 where m: "IopMarkPageCacheEntryDirty e s = Some (r, s1)"
    and rec: "flush_mark_dirty rest ps n e (off + ps) s1 = Some (ce', s')"
    by (auto split: option.splits)
  note f1 = mark_dirty_frame [OF m]
  note f2 = flush_mark_dirty_frame [OF rec]
  show ?case
  proof (cases j)
    case 0
    from f1 obtain d where "owner_entry s e = Some d" "entry_dirty s1 d" by blast
    with f2 0 show ?thesis by auto
  next
    case (Suc k)
    have b: "unat off + unat ps < 2 ^ 64"
    proof -
      have "unat off + unat ps \<le> unat off + j * unat ps" using Suc by simp
      also have "\<dots> < unat n" using Cons.prems(3) .
      also have "\<dots> < 2 ^ 64" using unsigned_less [of n] by simp
      finally show ?thesis .
    qed
    then have u: "unat (off + ps) = unat off + unat ps"
      by (simp add: unat_add_lem [THEN iffD1])
    have "unat (off + ps) + k * unat ps < unat n"
      using Cons.prems(3) Suc u by simp
    moreover have "k < length rest" using Cons.prems(2) Suc by simp
    ultimately obtain d where "owner_entry s1 (rest ! k) = Some d" "entry_dirty s' d"
      using Cons.IH [OF rec] by blast
    with f1 Suc show ?thesis by auto
  qed
qed

lemma flush_mark_clean_all_clean:
  "\<forall>e\<in>set buf. \<not> entry_dirty s e \<Longrightarrow>
   unat sz \<le> unat off + length buf * unat ps \<Longrightarrow>
   unat off + length buf * unat ps < 2 ^ 64 \<Longrightarrow>
   \<exists>ce' off'. flush_mark_clean buf ps sz ce cl off s = Some (ce', cl, off', s)"
proof (induction buf arbitrary: ce off)
  case Nil
  then show ?case by (simp add: word_less_nat_alt)
next
  case (Cons e rest)
  have c: "IopMarkPageCacheEntryClean e True s = (False, s)"
    using Cons.prems(1) by (simp add: mark_clean_clean entry_dirty_def)
  have u: "unat (off + ps) = unat off + unat ps"
    using Cons.prems(3) by (simp add: unat_add_lem [THEN iffD1])
  have "\<exists>ce' off'. flush_mark_clean rest ps sz e cl (off + ps) s = Some (ce', cl, off', s)"
    using Cons.IH [of "off + ps" e] Cons.prems u by simp
  then show ?case
    by (auto simp: c)
qed

lemma flush_buffer_write_marks:
  assumes bw: "flush_buffer_write buf f off n ce s1 = Some (Status, s')"
      and ans: "write_answer (WriteScript s1) n = (ws, bc)"
      and fail: "\<not> KSUCCESS ws \<or> bc \<noteq> n"
  shows "Status = (if \<not> KSUCCESS ws then ws else STATUS_DATA_LENGTH_MISMATCH)"
    and "\<And>j. j < length (drop (unat (ALIGN_RANGE_DOWN bc (MmPageSize s1) div MmPageSize s1)) buf)
           \<Longrightarrow> unat (ALIGN_RANGE_DOWN bc (MmPageSize s1)) + j * unat (MmPageSize s1) < unat n
           \<Longrightarrow> \<exists>d. owner_entry s1
                     (drop (unat (ALIGN_RANGE_DOWN bc (MmPageSize s1) div MmPageSize s1)) buf ! j)
                   = Some d \<and> entry_dirty s' d"
    and "bc \<noteq> n \<Longrightarrow> \<exists>x. (x = ce \<or> x \<in> set buf)
                         \<and> DirtyData (Files s' (FileObject (Entries s1 x)))"
proof -
  let ?ps = "MmPageSize s1"
  let ?A = "ALIGN_RANGE_DOWN bc ?ps"
  let ?es = "drop (unat (?A div ?ps)) buf"
  let ?s2 = "s1\<lparr>WriteLog := WriteLog s1 @ [(f, off, n)], WriteScript := tl (WriteScript s1)\<rparr>"
  let ?St = "if \<not> KSUCCESS ws then ws else STATUS_DATA_LENGTH_MISMATCH"
  have w: "IopPerformNonCachedWrite f off n s1 = (ws, bc, ?s2)"
    using ans by (auto simp: IopPerformNonCachedWrite_def write_answer_def Let_def
                       split: list.splits)
  have nf: "\<not> KSUCCESS ?St" by (simp add: KSUCCESS_def)
  have unf: "flush_buffer_write buf f off n ce s1 =
      (case flush_mark_dirty ?es ?ps n ce ?A ?s2 of
         None \<Rightarrow> None
       | Some (ce', s3) \<Rightarrow>
           Some (?St, if bc \<noteq> n
                      then IopMarkFileObjectDirty (FileObject (Entries s3 ce')) s3 else s3))"
    using fail nf unfolding flush_buffer_write_def Let_def w prod.case
    by (auto simp: KSUCCESS_def)
  from bw obtain ce' s3 where
    md: "flush_mark_dirty ?es ?ps n ce ?A ?s2 = Some (ce', s3)"
    and st: "Status = ?St"
    and s': "s' = (if bc \<noteq> n
                   then IopMarkFileObjectDirty (FileObject (Entries s3 ce')) s3 else s3)"
    unfolding unf by (auto split: option.splits)
  show "Status = ?St" by (rule st)
  have o2: "\<And>x. owner_entry ?s2 x = owner_entry s1 x"
    by (simp add: owner_entry_def)
  have d': "\<And>x. entry_dirty s' x = entry_dirty s3 x"
    by (simp add: s' entry_dirty_def prim_defs)
  show "\<exists>d. owner_entry s1 (?es ! j) = Some d \<and> entry_dirty s' d"
    if "j < length ?es" "unat ?A + j * unat ?ps < unat n" for j
    using flush_mark_dirty_marks [OF md that] by (simp add: o2 d')
  show "\<exists>x. (x = ce \<or> x \<in> set buf) \<and> DirtyData (Files s' (FileObject (Entries s1 x)))"
    if "bc \<noteq> n"
  proof -
    from flush_mark_dirty_frame [OF md]
    have fo: "FileObject (Entries s3 ce') = FileObject (Entries s1 ce')"
      and mem: "ce' = ce \<or> ce' \<in> set ?es"
      by simp_all
    have "DirtyData (Files s' (FileObject (Entries s1 ce')))"
      using that by (simp add: s' fo prim_defs)
    moreover have "ce' = ce \<or> ce' \<in> set buf"
      using mem by (auto dest: in_set_dropD)
    ultimately show ?thesis by blast
  qed
qed

text \<open>
  C4, as the code has it. First: when every page of a non-empty buffer is clean, the flush
  is not synchronized and the buffer holds the pages for the size asked, then
  IopFlushPageCacheBuffer returns success and the state, write log included, is what it
  was: the non-cached write is not called. Second: let the routine return after a write
  of n bytes that the device answered with an error, or with a completed byte count bc
  other than n. Then the status returned is the device's error, or
  STATUS_DATA_LENGTH_MISMATCH if the device reported success; every page of the buffer
  from the offset bc aligned down to the page size up to n has been given to
  IopMarkPageCacheEntryDirty, so that its owner entry is dirty afterwards; and if bc
  differs from n the file object of the buffer's pages is marked dirty.
\<close>

theorem flush_buffer_spec:
  "(buf \<noteq> [] \<and> (\<forall>e\<in>set buf. \<not> entry_dirty s e) \<and> \<not> sync
      \<and> unat sz \<le> length buf * unat (MmPageSize s)
      \<and> length buf * unat (MmPageSize s) < 2 ^ 64
      \<longrightarrow> IopFlushPageCacheBuffer buf sz sync s = Some (STATUS_SUCCESS, s))
   \<and> (IopFlushPageCacheBuffer buf sz sync s = Some (Status, s')
      \<and> WriteLog s' = WriteLog s @ [(f, off, n)]
      \<and> write_answer (WriteScript s) n = (ws, bc)
      \<and> (\<not> KSUCCESS ws \<or> bc \<noteq> n)
      \<longrightarrow> Status = (if \<not> KSUCCESS ws then ws else STATUS_DATA_LENGTH_MISMATCH)
          \<and> (\<forall>j. j < length (drop (unat (ALIGN_RANGE_DOWN bc (MmPageSize s) div MmPageSize s)) buf)
                  \<and> unat (ALIGN_RANGE_DOWN bc (MmPageSize s)) + j * unat (MmPageSize s) < unat n
                \<longrightarrow> (\<exists>d. owner_entry s
                            (drop (unat (ALIGN_RANGE_DOWN bc (MmPageSize s) div MmPageSize s)) buf ! j)
                          = Some d \<and> entry_dirty s' d))
          \<and> (bc \<noteq> n \<and> (\<forall>e\<in>set buf. FileObject (Entries s e) = f)
                \<longrightarrow> DirtyData (Files s' f)))"
proof (intro conjI impI)
  assume h: "buf \<noteq> [] \<and> (\<forall>e\<in>set buf. \<not> entry_dirty s e) \<and> \<not> sync
      \<and> unat sz \<le> length buf * unat (MmPageSize s)
      \<and> length buf * unat (MmPageSize s) < 2 ^ 64"
  then obtain First rest where buf: "buf = First # rest" by (cases buf) auto
  from h flush_mark_clean_all_clean [of buf s sz 0 "MmPageSize s" First True]
  obtain ce' off' where
    mc: "flush_mark_clean buf (MmPageSize s) sz First True 0 s = Some (ce', True, off', s)"
    by auto
  show "IopFlushPageCacheBuffer buf sz sync s = Some (STATUS_SUCCESS, s)"
    using h mc unfolding IopFlushPageCacheBuffer_def buf [symmetric]
    by (simp add: buf Let_def del: flush_mark_clean.simps)
next
  assume h: "IopFlushPageCacheBuffer buf sz sync s = Some (Status, s')
      \<and> WriteLog s' = WriteLog s @ [(f, off, n)]
      \<and> write_answer (WriteScript s) n = (ws, bc)
      \<and> (\<not> KSUCCESS ws \<or> bc \<noteq> n)"
  then obtain First rest where buf: "buf = First # rest"
    by (cases buf) (auto simp: IopFlushPageCacheBuffer_def)
  from h buf obtain ce cl bytes s1 where
    mc: "flush_mark_clean (First # rest) (MmPageSize s) sz First True 0 s = Some (ce, cl, bytes, s1)"
    by (auto simp: IopFlushPageCacheBuffer_def Let_def simp del: flush_mark_clean.simps
             split: option.splits)
  have d1: "same_device s s1" using flush_mark_clean_same_device [OF mc] .
  note fr1 = flush_mark_clean_frame [OF mc]
  have ps1: "MmPageSize s1 = MmPageSize s"
    using d1 by (simp add: same_device_def MmPageSize_def)
  from h buf mc
  have "Status = STATUS_SUCCESS \<and> s' = s1
        \<or> (\<exists>n'. flush_buffer_write buf (FileObject (Entries s First))
                    (Offset (Entries s First)) n' ce s1 = Some (Status, s'))"
    by (auto simp: IopFlushPageCacheBuffer_def Let_def simp del: flush_mark_clean.simps
             split: if_splits)
  moreover have "s' \<noteq> s1" using h d1 by (auto simp: same_device_def)
  ultimately obtain n' where
    bw: "flush_buffer_write buf (FileObject (Entries s First)) (Offset (Entries s First)) n' ce s1
           = Some (Status, s')"
    by blast
  from flush_buffer_write_outcome [OF bw] h d1
  have n': "n' = n" and f: "f = FileObject (Entries s First)"
    and off: "off = Offset (Entries s First)"
    by (auto simp: same_device_def)
  have bw': "flush_buffer_write buf f off n ce s1 = Some (Status, s')"
    using bw n' f off by simp
  have ans: "write_answer (WriteScript s1) n = (ws, bc)"
    using h d1 by (simp add: same_device_def)
  have fail: "\<not> KSUCCESS ws \<or> bc \<noteq> n" using h by simp
  note m = flush_buffer_write_marks [OF bw' ans fail]
  have ow: "\<And>x. owner_entry s1 x = owner_entry s x" using fr1 by simp
  show "Status = (if \<not> KSUCCESS ws then ws else STATUS_DATA_LENGTH_MISMATCH)"
    by (rule m(1))
  show "\<forall>j. j < length (drop (unat (ALIGN_RANGE_DOWN bc (MmPageSize s) div MmPageSize s)) buf)
                  \<and> unat (ALIGN_RANGE_DOWN bc (MmPageSize s)) + j * unat (MmPageSize s) < unat n
                \<longrightarrow> (\<exists>d. owner_entry s
                            (drop (unat (ALIGN_RANGE_DOWN bc (MmPageSize s) div MmPageSize s)) buf ! j)
                          = Some d \<and> entry_dirty s' d)"
    using m(2) [unfolded ps1 ow] by blast
  show "DirtyData (Files s' f)"
    if "bc \<noteq> n \<and> (\<forall>e\<in>set buf. FileObject (Entries s e) = f)"
  proof -
    from m(3) that obtain x where x: "x = ce \<or> x \<in> set buf"
      and dd: "DirtyData (Files s' (FileObject (Entries s1 x)))" by blast
    have "ce = First \<or> ce \<in> set buf" using fr1 buf by auto
    then have "x \<in> set buf" using x buf by auto
    then have "FileObject (Entries s1 x) = f" using that fr1 by simp
    with dd show ?thesis by simp
  qed
qed

theorem flush_buffer_spec_witness:
  "IopFlushPageCacheBuffer [1] 0x1000 False (streak_file [0, 1, 2, 3, 7] [0, 2, 3, 7])
     = Some (STATUS_SUCCESS, streak_file [0, 1, 2, 3, 7] [0, 2, 3, 7])
   \<and> buffer_status (IopFlushPageCacheBuffer [0] 0x1000 False failed_write)
       = Some (STATUS_OTHER 5)
   \<and> buffer_entry_dirty 0 (IopFlushPageCacheBuffer [0] 0x1000 False failed_write) = Some True
   \<and> buffer_file_dirty 0 (IopFlushPageCacheBuffer [0] 0x1000 False failed_write) = Some True"
proof -
  let ?c = "streak_file [0, 1, 2, 3, 7] [0, 2, 3, 7]"
  have ps: "MmPageSize ?c = 0x1000" "MmPageSize failed_write = 0x1000"
    by (simp_all add: MmPageSize_def streak_file_def failed_write_def one_dirty_page_def
          test_defs)
  have c1: "\<forall>e\<in>set [1]. \<not> entry_dirty ?c e"
    by (simp add: entry_dirty_def streak_file_def streak_entry_def test_defs
          flag_set_def flag_defs)
  have c2: "unat (0x1000 :: UINTN) \<le> length [1::nat] * unat (MmPageSize ?c)
      \<and> length [1::nat] * unat (MmPageSize ?c) < 2 ^ 64"
    unfolding ps by simp
  from c1 c2
  have c: "[1] \<noteq> [] \<and> (\<forall>e\<in>set [1]. \<not> entry_dirty ?c e) \<and> \<not> False
      \<and> unat (0x1000 :: UINTN) \<le> length [1::nat] * unat (MmPageSize ?c)
      \<and> length [1::nat] * unat (MmPageSize ?c) < 2 ^ 64"
    by blast
  from flush_buffer_spec [of "[1]" ?c False "0x1000", THEN conjunct1] c
  have 1: "IopFlushPageCacheBuffer [1] 0x1000 False ?c = Some (STATUS_SUCCESS, ?c)"
    by blast
  have "case IopFlushPageCacheBuffer [0] 0x1000 False failed_write of
          Some (Status, s') \<Rightarrow> WriteLog s' = [(0, 0, 0x1000)] | None \<Rightarrow> False"
    by code_simp
  then obtain Status s' where
    r: "IopFlushPageCacheBuffer [0] 0x1000 False failed_write = Some (Status, s')"
    and l: "WriteLog s' = [(0, 0, 0x1000)]"
    by (auto split: option.splits)
  have f: "WriteLog failed_write = []"
    "write_answer (WriteScript failed_write) 0x1000 = (STATUS_OTHER 5, 0)"
    "\<forall>e\<in>set [0]. FileObject (Entries failed_write e) = 0"
    "owner_entry failed_write 0 = Some 0"
    by (simp_all add: failed_write_def one_dirty_page_def test_defs write_answer_def
          owner_entry_def flag_set_def flag_defs)
  from flush_buffer_spec [of "[0]" failed_write False "0x1000" Status s' 0 0 "0x1000"
         "STATUS_OTHER 5" 0, THEN conjunct2] r l f
  have 2: "Status = STATUS_OTHER 5"
    and 3: "\<forall>j. j < length (drop (unat (ALIGN_RANGE_DOWN 0 (0x1000::UINTN) div 0x1000)) [0::nat])
                  \<and> unat (ALIGN_RANGE_DOWN 0 (0x1000::UINTN)) + j * unat (0x1000::UINTN)
                      < unat (0x1000::UINTN)
                \<longrightarrow> (\<exists>d. owner_entry failed_write
                            (drop (unat (ALIGN_RANGE_DOWN 0 (0x1000::UINTN) div 0x1000)) [0::nat] ! j)
                          = Some d \<and> entry_dirty s' d)"
    and 4: "DirtyData (Files s' 0)"
    unfolding ps by (simp_all add: KSUCCESS_def)
  from 3 [rule_format, of 0] f(4) have 5: "entry_dirty s' 0"
    by (simp add: ALIGN_RANGE_DOWN_def)
  from 1 2 4 5 r show ?thesis
    by (simp add: buffer_status_def buffer_entry_dirty_def buffer_file_dirty_def)
qed

text \<open>
  C4 as stated fails: when the device fails a write and yet reports every byte of it as
  completed, the error is returned and the file object is not marked dirty by
  IopFlushPageCacheBuffer (nor is any page).
\<close>

theorem flush_buffer_file_dirty_counterexample:
  "buffer_status (IopFlushPageCacheBuffer [0] 0x1000 False failed_full_write)
     = Some (STATUS_OTHER 5)
   \<and> buffer_file_dirty 0 (IopFlushPageCacheBuffer [0] 0x1000 False failed_full_write)
       = Some False"
  by code_simp

end
